theory Spec2Isabelle
  imports Complex_Main
begin

section \<open>Data model\<close>

text \<open>
  The wave-resonance tools of the repository (\<^verbatim>\<open>src/tools/library_ingestion.py\<close>,
  \<^verbatim>\<open>src/tools/library_ingestion_qdrant.py\<close>, \<^verbatim>\<open>src/tools/test_library_search.py\<close>)
  are embedded as HOL functions. Python floats are modelled as \<^typ>\<open>real\<close>: rounding,
  infinities and NaN are outside the model, so a property that depends on how sums and
  products are rounded is not a property of this model. Python exceptions are values of
  \<open>py_error\<close>; a function that can raise returns \<open>py_error + 'a\<close> with \<open>Inl\<close> the
  exception.
\<close>

datatype py_error = IndexError | KeyError | TypeError

text \<open>
  A wave pattern is a Python dict with the keys \<^verbatim>\<open>frequencies\<close>, \<^verbatim>\<open>amplitudes\<close>,
  \<^verbatim>\<open>phases\<close> and, when it comes from \<^verbatim>\<open>WaveTransformer.vector_to_wave\<close>,
  \<^verbatim>\<open>harmonics\<close>. The dict built by \<^verbatim>\<open>WaveSearchEngine.vector_to_wave\<close> has no
  \<^verbatim>\<open>harmonics\<close> key, hence the option. A harmonic tag is the pair
  \<^verbatim>\<open>(j, label)\<close> with the label one of the strings the source writes.
\<close>

record wave =
  frequencies :: "real list"
  amplitudes :: "real list"
  phases :: "real list"
  harmonics :: "(nat \<times> string) list list option"

definition bind_err :: "py_error + 'a \<Rightarrow> ('a \<Rightarrow> py_error + 'b) \<Rightarrow> py_error + 'b" where
  "bind_err m f = (case m of Inl e \<Rightarrow> Inl e | Inr x \<Rightarrow> f x)"

text \<open>\<^verbatim>\<open>xs[i]\<close> for a non-negative index: IndexError out of range.\<close>

definition nth_py :: "'a list \<Rightarrow> nat \<Rightarrow> py_error + 'a" where
  "nth_py xs i = (if i < length xs then Inr (xs ! i) else Inl IndexError)"

text \<open>\<^verbatim>\<open>wave["harmonics"][i]\<close>: KeyError without the key, IndexError out of range.\<close>

definition harmonics_at :: "wave \<Rightarrow> nat \<Rightarrow> py_error + (nat \<times> string) list" where
  "harmonics_at w i = (case harmonics w of None \<Rightarrow> Inl KeyError | Some hs \<Rightarrow> nth_py hs i)"

section \<open>Wave transform (\<^verbatim>\<open>WaveTransformer.vector_to_wave\<close>)\<close>

text \<open>
  The inner loop of \<^verbatim>\<open>vector_to_wave\<close> over
  \<^verbatim>\<open>enumerate(wave["frequencies"][:i])\<close>: the ratio of the new frequency to each
  earlier one is classified by the \<^verbatim>\<open>if/elif\<close> chain, a match appends a tag.
\<close>

fun tag_harmonics :: "real \<Rightarrow> (nat \<times> real) list \<Rightarrow> (nat \<times> string) list" where
  "tag_harmonics freq [] = []"
| "tag_harmonics freq ((j, other_freq) # rest) =
     (let ratio = (if other_freq > 0 then freq / other_freq else 0) in
      (if \<bar>ratio - 2.0\<bar> < 0.1 then [(j, ''octave'')]
       else if \<bar>ratio - 1.5\<bar> < 0.1 then [(j, ''fifth'')]
       else if \<bar>ratio - 1.33\<bar> < 0.1 then [(j, ''fourth'')]
       else []) @ tag_harmonics freq rest)"

text \<open>
  One iteration of the outer loop for the pair \<^verbatim>\<open>(i, val)\<close>. The frequency is the
  Python integer \<^verbatim>\<open>min(20 + i * 100, 20000)\<close>, stored as a float. The
  \<^verbatim>\<open>harmonics\<close> key is present from the initial dict on, so the append below never
  meets \<open>None\<close>.
\<close>

definition wave_step :: "wave \<Rightarrow> nat \<times> real \<Rightarrow> wave" where
  "wave_step w iv =
     (let i = fst iv; val = snd iv;
          freq = min (20 + i * 100) (20000::nat);
          fs = frequencies w @ [real freq];
          hs = tag_harmonics (real freq) (List.enumerate 0 (take i fs))
      in w\<lparr>frequencies := fs,
           amplitudes := amplitudes w @ [\<bar>val\<bar>],
           phases := phases w @ [if val \<ge> 0 then 0 else pi],
           harmonics := map_option (\<lambda>hss. hss @ [hs]) (harmonics w)\<rparr>)"

definition empty_wave :: wave where
  "empty_wave = \<lparr>frequencies = [], amplitudes = [], phases = [], harmonics = Some []\<rparr>"

definition vector_to_wave :: "real list \<Rightarrow> wave" where
  "vector_to_wave vector = foldl wave_step empty_wave (List.enumerate 0 vector)"

text \<open>
  \<^verbatim>\<open>WaveSearchEngine.vector_to_wave\<close>: the same loop without the harmonic tagging; the
  dict it returns has no \<^verbatim>\<open>harmonics\<close> key.
\<close>

definition engine_wave_step :: "wave \<Rightarrow> nat \<times> real \<Rightarrow> wave" where
  "engine_wave_step w iv =
     (let i = fst iv; val = snd iv;
          freq = min (20 + i * 100) (20000::nat)
      in w\<lparr>frequencies := frequencies w @ [real freq],
           amplitudes := amplitudes w @ [\<bar>val\<bar>],
           phases := phases w @ [if val \<ge> 0 then 0 else pi]\<rparr>)"

definition engine_vector_to_wave :: "real list \<Rightarrow> wave" where
  "engine_vector_to_wave vector =
     foldl engine_wave_step
       \<lparr>frequencies = [], amplitudes = [], phases = [], harmonics = None\<rparr>
       (List.enumerate 0 vector)"

section \<open>Resonance scoring\<close>

subsection \<open>Ingestion time (\<^verbatim>\<open>WaveTransformer.calculate_resonance\<close>)\<close>

text \<open>
  The innermost loop \<^verbatim>\<open>for h2 in wave2["harmonics"][i]\<close> for one tag \<open>h1\<close>: a tag of
  the second pattern with the same index \<^verbatim>\<open>h1[0] == h2[0]\<close> multiplies the bonus by the
  factor of the label of \<open>h1\<close>.
\<close>

definition inner_bonus :: "nat \<times> string \<Rightarrow> (nat \<times> string) list \<Rightarrow> real \<Rightarrow> real" where
  "inner_bonus h1 hs2 harmonic_bonus =
     foldl (\<lambda>b h2.
        if fst h1 = fst h2 then
          (if snd h1 = ''octave'' then b * 1.5
           else if snd h1 = ''fifth'' then b * 1.3
           else if snd h1 = ''fourth'' then b * 1.2
           else b)
        else b) harmonic_bonus hs2"

text \<open>
  The loop \<^verbatim>\<open>for h1 in wave1["harmonics"][i]\<close>. The iterable of the inner loop,
  \<^verbatim>\<open>wave2["harmonics"][i]\<close>, is evaluated once per tag \<open>h1\<close>, so it raises only when
  the first pattern has a tag at \<open>i\<close>.
\<close>

fun harmonic_loop :: "wave \<Rightarrow> nat \<Rightarrow> (nat \<times> string) list \<Rightarrow> real \<Rightarrow> py_error + real" where
  "harmonic_loop wave2 i [] harmonic_bonus = Inr harmonic_bonus"
| "harmonic_loop wave2 i (h1 # hs1) harmonic_bonus =
     (case harmonics_at wave2 i of
        Inl e \<Rightarrow> Inl e
      | Inr hs2 \<Rightarrow> harmonic_loop wave2 i hs1 (inner_bonus h1 hs2 harmonic_bonus))"

text \<open>
  Step 4 at index \<open>i\<close>: \<^verbatim>\<open>harmonic_bonus = 1.0\<close> followed by the two nested loops
  over the tags.
\<close>

definition harmonic_bonus_at :: "wave \<Rightarrow> wave \<Rightarrow> nat \<Rightarrow> py_error + real" where
  "harmonic_bonus_at wave1 wave2 i =
     bind_err (harmonics_at wave1 i) (\<lambda>hs1. harmonic_loop wave2 i hs1 1)"

text \<open>The body of \<^verbatim>\<open>for i in range(n)\<close>: the summand of index \<open>i\<close>.\<close>

definition resonance_component :: "wave \<Rightarrow> wave \<Rightarrow> nat \<Rightarrow> py_error + real" where
  "resonance_component wave1 wave2 i =
     bind_err (nth_py (frequencies wave1) i) (\<lambda>f1.
     bind_err (nth_py (frequencies wave2) i) (\<lambda>f2.
     let freq_diff = \<bar>f1 - f2\<bar>;
         freq_match = 1 / (1 + freq_diff / 100) in
     bind_err (nth_py (amplitudes wave1) i) (\<lambda>a1.
     bind_err (nth_py (amplitudes wave2) i) (\<lambda>a2.
     let amp_corr = 1 - \<bar>a1 - a2\<bar> in
     bind_err (nth_py (phases wave1) i) (\<lambda>p1.
     bind_err (nth_py (phases wave2) i) (\<lambda>p2.
     let phase_diff = \<bar>p1 - p2\<bar>;
         phase_coherence = cos phase_diff in
     bind_err (harmonic_bonus_at wave1 wave2 i) (\<lambda>harmonic_bonus.
     Inr (freq_match * amp_corr * phase_coherence * harmonic_bonus))))))))"

text \<open>
  \<^verbatim>\<open>for i in range(n): ... score += component\<close>, shared by both scorers: the
  summand is a parameter, the first exception ends the loop.
\<close>

fun resonance_loop :: "(nat \<Rightarrow> py_error + real) \<Rightarrow> nat list \<Rightarrow> real \<Rightarrow> py_error + real" where
  "resonance_loop component [] score = Inr score"
| "resonance_loop component (i # rest) score =
     (case component i of
        Inl e \<Rightarrow> Inl e
      | Inr c \<Rightarrow> resonance_loop component rest (score + c))"

definition calculate_resonance :: "wave \<Rightarrow> wave \<Rightarrow> py_error + real" where
  "calculate_resonance wave1 wave2 =
     (let n = min (length (frequencies wave1)) (length (frequencies wave2)) in
      bind_err (resonance_loop (resonance_component wave1 wave2) [0..<n] 0)
        (\<lambda>score. Inr (if n > 0 then score / real n else 0)))"

text \<open>
  The callers pass \<^verbatim>\<open>doc.wave_pattern\<close>, an \<^verbatim>\<open>Optional[Dict]\<close>. Subscripting
  \<^verbatim>\<open>None\<close> in \<^verbatim>\<open>wave1["frequencies"]\<close> raises TypeError.
\<close>

definition subscript_wave :: "wave option \<Rightarrow> py_error + wave" where
  "subscript_wave w = (case w of None \<Rightarrow> Inl TypeError | Some a \<Rightarrow> Inr a)"

definition calculate_resonance_py :: "wave option \<Rightarrow> wave option \<Rightarrow> py_error + real" where
  "calculate_resonance_py wave1 wave2 =
     bind_err (subscript_wave wave1) (\<lambda>a.
     bind_err (subscript_wave wave2) (\<lambda>b. calculate_resonance a b))"

subsection \<open>Query time (\<^verbatim>\<open>WaveSearchEngine.calculate_resonance\<close>)\<close>

text \<open>\<^verbatim>\<open>SearchContext\<close>: the two modes are Python strings, compared with \<^verbatim>\<open>==\<close>.\<close>

record search_context =
  emotional_state :: string
  truth_amplification :: real
  vulnerability_coefficient :: real
  harmonic_preference :: string

definition default_context :: search_context where
  "default_context =
     \<lparr>emotional_state = ''focused'', truth_amplification = 1,
      vulnerability_coefficient = 0.5, harmonic_preference = ''balanced''\<rparr>"

text \<open>
  The \<^verbatim>\<open>if/elif\<close> chain on \<^verbatim>\<open>context.harmonic_preference\<close>, starting from
  \<^verbatim>\<open>harmonic_bonus = 1.0\<close>.
\<close>

definition preference_bonus :: "search_context \<Rightarrow> real \<Rightarrow> real" where
  "preference_bonus context freq_ratio =
     (if harmonic_preference context = ''octaves'' \<and> \<bar>freq_ratio - 2.0\<bar> < 0.1 then 2.0
      else if harmonic_preference context = ''fifths'' \<and> \<bar>freq_ratio - 1.5\<bar> < 0.1 then 1.8
      else if harmonic_preference context = ''dissonant'' \<and> \<bar>freq_ratio - 1.414\<bar> < 0.1 then 1.5
      else 1.0)"

text \<open>The \<^verbatim>\<open>if/elif\<close> chain on \<^verbatim>\<open>context.emotional_state\<close>.\<close>

definition emotional_modulation :: "search_context \<Rightarrow> real \<Rightarrow> real \<Rightarrow> real" where
  "emotional_modulation context amp_corr component_score =
     (if emotional_state context = ''raw''
        then component_score * (2.0 * truth_amplification context)
      else if emotional_state context = ''graceland''
        then component_score * (vulnerability_coefficient context * 3.0)
      else if emotional_state context = ''happy''
        then component_score * (if amp_corr > 0.7 then 1.3 else 0.7)
      else component_score)"

definition engine_component :: "wave \<Rightarrow> wave \<Rightarrow> search_context \<Rightarrow> nat \<Rightarrow> py_error + real" where
  "engine_component wave1 wave2 context i =
     bind_err (nth_py (frequencies wave1) i) (\<lambda>f1.
     bind_err (nth_py (frequencies wave2) i) (\<lambda>f2.
     let freq_diff = \<bar>f1 - f2\<bar>;
         freq_match = 1 / (1 + freq_diff / 100) in
     bind_err (nth_py (amplitudes wave1) i) (\<lambda>a1.
     bind_err (nth_py (amplitudes wave2) i) (\<lambda>a2.
     let amp_corr = 1 - \<bar>a1 - a2\<bar> in
     bind_err (nth_py (phases wave1) i) (\<lambda>p1.
     bind_err (nth_py (phases wave2) i) (\<lambda>p2.
     let phase_diff = \<bar>p1 - p2\<bar>;
         phase_coherence = cos phase_diff;
         freq_ratio = (if f2 > 0 then f1 / f2 else 1);
         harmonic_bonus = preference_bonus context freq_ratio;
         component_score = freq_match * amp_corr * phase_coherence * harmonic_bonus
     in Inr (emotional_modulation context amp_corr component_score)))))))"

definition engine_calculate_resonance :: "wave \<Rightarrow> wave \<Rightarrow> search_context \<Rightarrow> py_error + real" where
  "engine_calculate_resonance wave1 wave2 context =
     (let n = min (length (frequencies wave1)) (length (frequencies wave2)) in
      bind_err (resonance_loop (engine_component wave1 wave2 context) [0..<n] 0)
        (\<lambda>score. Inr (if n > 0 then score / real n else 0)))"

section \<open>Resonance graph construction\<close>

text \<open>
  \<^verbatim>\<open>LibraryDocument\<close>, the dataclass of the ingestion pipeline, with the fields the
  graph builders read. \<^verbatim>\<open>wave_pattern\<close> is \<^verbatim>\<open>Optional[Dict]\<close> with default
  \<^verbatim>\<open>None\<close>.
\<close>

record library_document =
  doc_id :: string
  doc_title :: string
  doc_path :: string
  doc_category :: string
  doc_wave_pattern :: "wave option"
  doc_emotional_valence :: real
  doc_importance :: real

text \<open>
  \<^verbatim>\<open>sorted(xs, key=..., reverse=True)\<close> and \<^verbatim>\<open>xs.sort(key=..., reverse=True)\<close>:
  descending by key, elements with equal keys in their original order.
\<close>

definition sorted_reverse :: "('a \<Rightarrow> real) \<Rightarrow> 'a list \<Rightarrow> 'a list" where
  "sorted_reverse key xs = sort_key (\<lambda>x. - key x) xs"

text \<open>
  The grouping loop of both builders: a dict from category to the list of its
  documents, in insertion order.
\<close>

definition add_to_category ::
  "(string \<times> library_document list) list \<Rightarrow> library_document \<Rightarrow> (string \<times> library_document list) list" where
  "add_to_category categories doc =
     (if doc_category doc \<notin> set (map fst categories)
      then categories @ [(doc_category doc, [doc])]
      else map (\<lambda>(c, ds). if c = doc_category doc then (c, ds @ [doc]) else (c, ds)) categories)"

definition group_by_category :: "library_document list \<Rightarrow> (string \<times> library_document list) list" where
  "group_by_category documents = foldl add_to_category [] documents"

subsection \<open>\<^verbatim>\<open>Mem8Ingester.ingest_documents\<close>\<close>

type_synonym resonance_graph = "string \<rightharpoonup> (string \<times> real) list"

text \<open>
  The loop \<^verbatim>\<open>for j, other_doc in enumerate(docs)\<close> for the document at position
  \<open>i\<close>. There is no test of \<^verbatim>\<open>wave_pattern\<close> before the scorer is called.
\<close>

fun mem8_resonances ::
  "nat \<Rightarrow> library_document \<Rightarrow> (nat \<times> library_document) list \<Rightarrow> (string \<times> real) list
   \<Rightarrow> py_error + (string \<times> real) list" where
  "mem8_resonances i doc [] resonances = Inr resonances"
| "mem8_resonances i doc ((j, other_doc) # rest) resonances =
     (if i \<noteq> j then
        (case calculate_resonance_py (doc_wave_pattern doc) (doc_wave_pattern other_doc) of
           Inl e \<Rightarrow> Inl e
         | Inr resonance \<Rightarrow>
             mem8_resonances i doc rest
               (if resonance > 0.5 then resonances @ [(doc_id other_doc, resonance)]
                else resonances))
      else mem8_resonances i doc rest resonances)"

text \<open>The loop \<^verbatim>\<open>for i, doc in enumerate(docs)\<close> filling \<^verbatim>\<open>index["resonance_graph"]\<close>.\<close>

fun mem8_graph_loop ::
  "library_document list \<Rightarrow> (nat \<times> library_document) list \<Rightarrow> resonance_graph
   \<Rightarrow> py_error + resonance_graph" where
  "mem8_graph_loop docs [] graph = Inr graph"
| "mem8_graph_loop docs ((i, doc) # rest) graph =
     (case mem8_resonances i doc (List.enumerate 0 docs) [] of
        Inl e \<Rightarrow> Inl e
      | Inr resonances \<Rightarrow>
          mem8_graph_loop docs rest
            (if resonances \<noteq> []
             then graph(doc_id doc \<mapsto> take 10 (sorted_reverse snd resonances))
             else graph))"

text \<open>
  One category index as written to \<^verbatim>\<open>{category}_index.json\<close>. The document
  summaries are represented by their ids (their \<^verbatim>\<open>wave_hash\<close> is a SHA-256 digest and
  not modelled).
\<close>

record category_index =
  index_category :: string
  document_count :: nat
  index_documents :: "string list"
  index_resonance_graph :: resonance_graph

fun mem8_category_loop ::
  "(string \<times> library_document list) list \<Rightarrow> category_index list \<Rightarrow> py_error + category_index list" where
  "mem8_category_loop [] written = Inr written"
| "mem8_category_loop ((category, docs) # rest) written =
     (case mem8_graph_loop docs (List.enumerate 0 docs) Map.empty of
        Inl e \<Rightarrow> Inl e
      | Inr graph \<Rightarrow>
          mem8_category_loop rest
            (written @ [\<lparr>index_category = category, document_count = length docs,
                         index_documents = map doc_id docs,
                         index_resonance_graph = graph\<rparr>]))"

text \<open>
  \<^verbatim>\<open>ingest_documents\<close> up to the last category index; the result is the list of the
  indices written, or the exception that ended the call (the indices written before it
  are then not part of the result). The files written afterwards
  (\<^verbatim>\<open>documents.json\<close>, \<^verbatim>\<open>master_index.json\<close>) hold no graph.
\<close>

definition ingest_documents :: "library_document list \<Rightarrow> py_error + category_index list" where
  "ingest_documents documents = mem8_category_loop (group_by_category documents) []"

subsection \<open>\<^verbatim>\<open>QdrantIngester.create_resonance_indices\<close>\<close>

record resonance_link =
  target_id :: string
  link_resonance :: real
  link_category :: string

type_synonym resonance_data = "string \<rightharpoonup> resonance_link list"

text \<open>
  The loop \<^verbatim>\<open>for j, doc2 in enumerate(docs)\<close>:
  \<^verbatim>\<open>if i == j or not doc2.wave_pattern: continue\<close>.
\<close>

fun qdrant_resonances ::
  "string \<Rightarrow> nat \<Rightarrow> library_document \<Rightarrow> (nat \<times> library_document) list \<Rightarrow> resonance_link list
   \<Rightarrow> py_error + resonance_link list" where
  "qdrant_resonances category i doc1 [] resonances = Inr resonances"
| "qdrant_resonances category i doc1 ((j, doc2) # rest) resonances =
     (if i = j \<or> doc_wave_pattern doc2 = None then
        qdrant_resonances category i doc1 rest resonances
      else
        (case calculate_resonance_py (doc_wave_pattern doc1) (doc_wave_pattern doc2) of
           Inl e \<Rightarrow> Inl e
         | Inr resonance \<Rightarrow>
             qdrant_resonances category i doc1 rest
               (if resonance > 0.5
                then resonances @ [\<lparr>target_id = doc_id doc2, link_resonance = resonance,
                                    link_category = category\<rparr>]
                else resonances)))"

text \<open>
  The loop \<^verbatim>\<open>for i, doc1 in enumerate(docs)\<close>:
  \<^verbatim>\<open>if not doc1.wave_pattern: continue\<close>.
\<close>

fun qdrant_doc_loop ::
  "string \<Rightarrow> library_document list \<Rightarrow> (nat \<times> library_document) list \<Rightarrow> resonance_data
   \<Rightarrow> py_error + resonance_data" where
  "qdrant_doc_loop category docs [] resonance_data = Inr resonance_data"
| "qdrant_doc_loop category docs ((i, doc1) # rest) resonance_data =
     (if doc_wave_pattern doc1 = None then
        qdrant_doc_loop category docs rest resonance_data
      else
        (case qdrant_resonances category i doc1 (List.enumerate 0 docs) [] of
           Inl e \<Rightarrow> Inl e
         | Inr resonances \<Rightarrow>
             qdrant_doc_loop category docs rest
               (if resonances \<noteq> []
                then resonance_data(doc_id doc1 \<mapsto> take 20 (sorted_reverse link_resonance resonances))
                else resonance_data)))"

fun qdrant_category_loop ::
  "(string \<times> library_document list) list \<Rightarrow> resonance_data \<Rightarrow> py_error + resonance_data" where
  "qdrant_category_loop [] resonance_data = Inr resonance_data"
| "qdrant_category_loop ((category, docs) # rest) resonance_data =
     (case qdrant_doc_loop category docs (List.enumerate 0 docs) resonance_data of
        Inl e \<Rightarrow> Inl e
      | Inr resonance_data' \<Rightarrow> qdrant_category_loop rest resonance_data')"

definition create_resonance_indices :: "library_document list \<Rightarrow> py_error + resonance_data" where
  "create_resonance_indices documents =
     qdrant_category_loop (group_by_category documents) Map.empty"

text \<open>
  \<^verbatim>\<open>LibraryDocument(id=..., category=..., wave_pattern=...)\<close> with title and path
  equal to the id, valence 0 and importance 0.5 (the dataclass defaults), for concrete
  inputs.
\<close>

definition library_doc :: "string \<Rightarrow> string \<Rightarrow> wave option \<Rightarrow> library_document" where
  "library_doc i c w =
     \<lparr>doc_id = i, doc_title = i, doc_path = i, doc_category = c, doc_wave_pattern = w,
      doc_emotional_valence = 0, doc_importance = 0.5\<rparr>"

text \<open>
  What the specification asks of a neighbour list: at most \<open>k\<close> links, descending by
  score, every score above the threshold 0.5.
\<close>

definition strong_links :: "nat \<Rightarrow> ('a \<Rightarrow> real) \<Rightarrow> 'a list \<Rightarrow> bool" where
  "strong_links k key ns \<longleftrightarrow>
     length ns \<le> k \<and> sorted_wrt (\<lambda>x y. key x \<ge> key y) ns \<and> (\<forall>x \<in> set ns. key x > 0.5)"

text \<open>
  For the builder that tests \<^verbatim>\<open>wave_pattern\<close>: \<open>waved D k\<close> says that \<open>k\<close> is the id
  of a document of \<open>D\<close> with a wave pattern; \<open>scorable D\<close> that the scorer returns a
  score for any two wave patterns present in \<open>D\<close>; \<open>skips_unwaved D g\<close> that every key
  and every link target of the graph \<open>g\<close> is such an id.
\<close>

definition waved :: "library_document set \<Rightarrow> string \<Rightarrow> bool" where
  "waved D k \<longleftrightarrow> (\<exists>d \<in> D. doc_id d = k \<and> doc_wave_pattern d \<noteq> None)"

definition scorable :: "library_document set \<Rightarrow> bool" where
  "scorable D \<longleftrightarrow>
     (\<forall>d1 \<in> D. \<forall>d2 \<in> D. \<forall>w1 w2.
        doc_wave_pattern d1 = Some w1 \<longrightarrow> doc_wave_pattern d2 = Some w2 \<longrightarrow>
        (\<exists>r. calculate_resonance w1 w2 = Inr r))"

definition skips_unwaved :: "library_document set \<Rightarrow> resonance_data \<Rightarrow> bool" where
  "skips_unwaved D g \<longleftrightarrow>
     (\<forall>k links. g k = Some links \<longrightarrow> waved D k \<and> (\<forall>l \<in> set links. waved D (target_id l)))"

section \<open>Search engine (\<^verbatim>\<open>WaveSearchEngine\<close>)\<close>

text \<open>
  A stored document is the dict loaded from \<^verbatim>\<open>documents.json\<close>. The keys read with
  \<^verbatim>\<open>doc.get\<close> may be absent and are options; the keys read with \<^verbatim>\<open>doc[...]\<close> are
  fields. \<^verbatim>\<open>self.documents\<close> maps ids to such dicts: an association list in insertion
  order, whose keys are distinct as the keys of a dict are.
\<close>

record stored_document =
  title :: string
  category :: string
  path :: string
  content :: "string option"
  wave_pattern :: "wave option"
  emotional_valence :: "real option"
  importance :: "real option"

record search_result =
  result_id :: string
  result_title :: string
  result_category :: string
  resonance :: real
  result_emotional_valence :: real
  preview :: string
  result_path :: string

text \<open>\<^verbatim>\<open>xs[:k]\<close> for a Python integer \<open>k\<close>: a negative \<open>k\<close> counts from the end.\<close>

definition py_slice_to :: "int \<Rightarrow> 'a list \<Rightarrow> 'a list" where
  "py_slice_to k xs =
     (if k < 0 then take (nat (int (length xs) + k)) xs else take (nat k) xs)"

text \<open>
  The scoring loop \<^verbatim>\<open>for doc_id, doc in self.documents.items()\<close> of \<^verbatim>\<open>search\<close>.
  \<^verbatim>\<open>if category_filter and ...\<close> treats \<^verbatim>\<open>None\<close> and the empty string alike.
\<close>

fun score_documents ::
  "wave \<Rightarrow> search_context \<Rightarrow> string option \<Rightarrow> (string \<times> stored_document) list
   \<Rightarrow> search_result list \<Rightarrow> py_error + search_result list" where
  "score_documents query_wave context category_filter [] results = Inr results"
| "score_documents query_wave context category_filter ((did, doc) # rest) results =
     (if (case category_filter of None \<Rightarrow> False | Some c \<Rightarrow> c \<noteq> [] \<and> category doc \<noteq> c) then
        score_documents query_wave context category_filter rest results
      else
        (case wave_pattern doc of
           None \<Rightarrow> score_documents query_wave context category_filter rest results
         | Some w \<Rightarrow>
            (case engine_calculate_resonance query_wave w context of
               Inl e \<Rightarrow> Inl e
             | Inr base \<Rightarrow>
                 (let valence = (case emotional_valence doc of None \<Rightarrow> 0 | Some v \<Rightarrow> v);
                      modulated =
                        (if emotional_state context = ''raw'' \<or> emotional_state context = ''graceland''
                         then base * (1 + \<bar>valence\<bar>) else base);
                      weighted =
                        modulated * (0.5 + (case importance doc of None \<Rightarrow> 0.5 | Some x \<Rightarrow> x))
                  in score_documents query_wave context category_filter rest
                       (results @
                        [\<lparr>result_id = did, result_title = title doc,
                          result_category = category doc, resonance = weighted,
                          result_emotional_valence = valence,
                          preview = (case content doc of None \<Rightarrow> [] | Some t \<Rightarrow> take 200 t),
                          result_path = path doc\<rparr>])))))"

text \<open>
  The re-ranking block of \<^verbatim>\<open>search\<close>, on the sorted results.
  \<^verbatim>\<open>dict(self.resonance_graph[top_result_id])\<close> keeps, for an id listed twice, the
  last score.
\<close>

definition boost :: "(string \<rightharpoonup> real) \<Rightarrow> search_result \<Rightarrow> search_result" where
  "boost resonant_docs result =
     (case resonant_docs (result_id result) of
        None \<Rightarrow> result
      | Some s \<Rightarrow> result\<lparr>resonance := resonance result * (1 + s * 0.5)\<rparr>)"

definition graph_rerank ::
  "search_context \<Rightarrow> resonance_graph \<Rightarrow> search_result list \<Rightarrow> search_result list" where
  "graph_rerank context graph results =
     (if length results > 0 \<and> harmonic_preference context \<noteq> ''balanced'' then
        (case results of
           [] \<Rightarrow> results
         | top_result # others \<Rightarrow>
            (case graph (result_id top_result) of
               None \<Rightarrow> results
             | Some neighbors \<Rightarrow>
                 (let resonant_docs = map_of (rev neighbors)
                  in sorted_reverse resonance (top_result # map (boost resonant_docs) others))))
      else results)"

text \<open>
  \<^verbatim>\<open>search\<close>. The sentence encoder is external: the query enters as its embedding.
  An absent context is replaced by the default one.
\<close>

definition search ::
  "(string \<times> stored_document) list \<Rightarrow> resonance_graph \<Rightarrow> real list \<Rightarrow> search_context option
   \<Rightarrow> string option \<Rightarrow> int \<Rightarrow> py_error + search_result list" where
  "search documents graph query_embedding context_opt category_filter top_k =
     (let context = (case context_opt of None \<Rightarrow> default_context | Some c \<Rightarrow> c);
          query_wave = engine_vector_to_wave query_embedding
      in bind_err (score_documents query_wave context category_filter documents [])
           (\<lambda>results.
              Inr (py_slice_to top_k
                     (graph_rerank context graph (sorted_reverse resonance results)))))"

subsection \<open>The re-ranking pass as the specification words it\<close>

text \<open>
  The pass runs exactly when the result list is non-empty and the preference is not
  \<^verbatim>\<open>balanced\<close>. The neighbours of the top result are its entry in the graph (none when
  it has no entry, and for an id listed twice the last score counts); every result
  with another id than the top one whose id is among them is multiplied by
  \<open>1 + neighbor_score * 0.5\<close>, the others stay as they are; the list is sorted again,
  descending. Truncation to \<open>top_k\<close> comes after the pass.
\<close>

definition spec_neighbors :: "resonance_graph \<Rightarrow> string \<Rightarrow> (string \<times> real) list" where
  "spec_neighbors graph top_id = (case graph top_id of None \<Rightarrow> [] | Some ns \<Rightarrow> ns)"

definition spec_boost :: "string \<Rightarrow> (string \<rightharpoonup> real) \<Rightarrow> search_result \<Rightarrow> search_result" where
  "spec_boost top_id neighbor_score r =
     (if result_id r \<noteq> top_id then
        (case neighbor_score (result_id r) of
           Some s \<Rightarrow> r\<lparr>resonance := resonance r * (1 + s * 0.5)\<rparr>
         | None \<Rightarrow> r)
      else r)"

definition spec_rerank ::
  "search_context \<Rightarrow> resonance_graph \<Rightarrow> search_result list \<Rightarrow> search_result list" where
  "spec_rerank context graph results =
     (if results \<noteq> [] \<and> harmonic_preference context \<noteq> ''balanced'' then
        (let top_id = result_id (hd results);
             neighbor_score = map_of (rev (spec_neighbors graph top_id))
         in sorted_reverse resonance (map (spec_boost top_id neighbor_score) results))
      else results)"

definition spec_search ::
  "(string \<times> stored_document) list \<Rightarrow> resonance_graph \<Rightarrow> real list \<Rightarrow> search_context option
   \<Rightarrow> string option \<Rightarrow> int \<Rightarrow> py_error + search_result list" where
  "spec_search documents graph query_embedding context_opt category_filter top_k =
     (let context = (case context_opt of None \<Rightarrow> default_context | Some c \<Rightarrow> c)
      in bind_err (score_documents (engine_vector_to_wave query_embedding) context
                     category_filter documents [])
           (\<lambda>scored.
              Inr (py_slice_to top_k
                     (spec_rerank context graph (sorted_reverse resonance scored)))))"

section \<open>Harmonics finder\<close>

text \<open>
  The label of \<^verbatim>\<open>_identify_harmonic_type\<close> is a string; the fallback
  \<^verbatim>\<open>f"ratio_{ratio:.2f}"\<close> is kept as the ratio it formats.
\<close>

datatype relationship_label = Label string | RatioLabel real

definition identify_harmonic_type :: "real \<Rightarrow> real \<Rightarrow> relationship_label" where
  "identify_harmonic_type freq1 freq2 =
     (if freq1 = 0 then Label ''undefined''
      else
        (let ratio = freq2 / freq1 in
         if \<bar>ratio - 1.0\<bar> < 0.05 then Label ''unison''
         else if \<bar>ratio - 2.0\<bar> < 0.1 then Label ''octave''
         else if \<bar>ratio - 1.5\<bar> < 0.1 then Label ''perfect_fifth''
         else if \<bar>ratio - 1.33\<bar> < 0.1 then Label ''perfect_fourth''
         else if \<bar>ratio - 1.25\<bar> < 0.1 then Label ''major_third''
         else if \<bar>ratio - 1.2\<bar> < 0.1 then Label ''minor_third''
         else RatioLabel ratio))"

record harmonic_entry =
  harmonic_id :: string
  harmonic_title :: string
  harmonic_category :: string
  harmonic_score :: real
  relationship :: relationship_label

text \<open>
  The loop \<^verbatim>\<open>for i in range(min(len(base_freqs), len(other_freqs)))\<close> adding to
  \<^verbatim>\<open>harmonic_score\<close>.
\<close>

fun harmonic_score_loop ::
  "string \<Rightarrow> real list \<Rightarrow> real list \<Rightarrow> nat list \<Rightarrow> real \<Rightarrow> py_error + real" where
  "harmonic_score_loop harmonic_type base_freqs other_freqs [] score = Inr score"
| "harmonic_score_loop harmonic_type base_freqs other_freqs (i # rest) score =
     bind_err (nth_py base_freqs i) (\<lambda>b.
     bind_err (if b > 0 then bind_err (nth_py other_freqs i) (\<lambda>c. Inr (c / b)) else Inr 0)
       (\<lambda>ratio.
          harmonic_score_loop harmonic_type base_freqs other_freqs rest
            (if (harmonic_type = ''all'' \<or> harmonic_type = ''octave'') \<and> \<bar>ratio - 2.0\<bar> < 0.1
               then score + 1
             else if (harmonic_type = ''all'' \<or> harmonic_type = ''fifth'') \<and> \<bar>ratio - 1.5\<bar> < 0.1
               then score + 0.8
             else if (harmonic_type = ''all'' \<or> harmonic_type = ''fourth'') \<and> \<bar>ratio - 1.33\<bar> < 0.1
               then score + 0.7
             else score)))"

text \<open>
  The loop \<^verbatim>\<open>for other_id, other_doc in self.documents.items()\<close>, which skips
  the base document and every document without a wave pattern. The first
  elements \<^verbatim>\<open>base_freqs[0]\<close> and \<^verbatim>\<open>other_freqs[0]\<close> are read only under
  \<^verbatim>\<open>harmonic_score > 0\<close>.
\<close>

fun harmonics_loop ::
  "string \<Rightarrow> string \<Rightarrow> wave \<Rightarrow> (string \<times> stored_document) list \<Rightarrow> harmonic_entry list
   \<Rightarrow> py_error + harmonic_entry list" where
  "harmonics_loop doc_id' harmonic_type base_wave [] harmonics_acc = Inr harmonics_acc"
| "harmonics_loop doc_id' harmonic_type base_wave ((other_id, other_doc) # rest) harmonics_acc =
     (if other_id = doc_id' then
        harmonics_loop doc_id' harmonic_type base_wave rest harmonics_acc
      else case wave_pattern other_doc of
        None \<Rightarrow> harmonics_loop doc_id' harmonic_type base_wave rest harmonics_acc
      | Some other_wave \<Rightarrow>
        (let base_freqs = frequencies base_wave;
             other_freqs = frequencies other_wave
         in bind_err (harmonic_score_loop harmonic_type base_freqs other_freqs
                        [0..<min (length base_freqs) (length other_freqs)] 0)
              (\<lambda>score.
                 if score > 0 then
                   bind_err (nth_py base_freqs 0) (\<lambda>b0.
                   bind_err (nth_py other_freqs 0) (\<lambda>o0.
                     harmonics_loop doc_id' harmonic_type base_wave rest
                       (harmonics_acc @
                        [\<lparr>harmonic_id = other_id, harmonic_title = title other_doc,
                          harmonic_category = category other_doc, harmonic_score = score,
                          relationship = identify_harmonic_type b0 o0\<rparr>])))
                 else harmonics_loop doc_id' harmonic_type base_wave rest harmonics_acc)))"

definition find_harmonics ::
  "(string \<times> stored_document) list \<Rightarrow> string \<Rightarrow> string \<Rightarrow> py_error + harmonic_entry list" where
  "find_harmonics documents doc_id' harmonic_type =
     (case map_of documents doc_id' of
        None \<Rightarrow> Inr []
      | Some base_doc \<Rightarrow>
         (case wave_pattern base_doc of
            None \<Rightarrow> Inr []
          | Some base_wave \<Rightarrow>
              bind_err (harmonics_loop doc_id' harmonic_type base_wave documents [])
                (\<lambda>harmonics. Inr (take 10 (sorted_reverse harmonic_score harmonics)))))"

text \<open>
  The entry that one iteration of the loop of \<^verbatim>\<open>find_harmonics\<close> appends for the
  item \<open>(other_id, other_doc)\<close>, as a list of length at most one: used to state what
  the loop computes.
\<close>

definition harmonic_candidate ::
  "string \<Rightarrow> string \<Rightarrow> wave \<Rightarrow> string \<times> stored_document \<Rightarrow> harmonic_entry list" where
  "harmonic_candidate doc_id' harmonic_type base_wave entry =
     (case entry of (other_id, other_doc) \<Rightarrow>
        if other_id = doc_id' then []
        else case wave_pattern other_doc of
          None \<Rightarrow> []
        | Some other_wave \<Rightarrow>
           (case harmonic_score_loop harmonic_type (frequencies base_wave) (frequencies other_wave)
                   [0..<min (length (frequencies base_wave)) (length (frequencies other_wave))] 0 of
              Inl e \<Rightarrow> []
            | Inr score \<Rightarrow>
               (case (frequencies base_wave, frequencies other_wave) of
                  (b0 # bs, o0 # os) \<Rightarrow>
                    if score > 0 then
                      [\<lparr>harmonic_id = other_id, harmonic_title = title other_doc,
                        harmonic_category = category other_doc, harmonic_score = score,
                        relationship = identify_harmonic_type b0 o0\<rparr>]
                    else []
                | _ \<Rightarrow> [])))"

text \<open>
  Concrete inputs: a stored document with the optional keys absent, and a wave
  pattern with the given frequencies, unit amplitudes and zero phases.
\<close>

definition stored_doc :: "string \<Rightarrow> string \<Rightarrow> wave option \<Rightarrow> stored_document" where
  "stored_doc t c w =
     \<lparr>title = t, category = c, path = t, content = None, wave_pattern = w,
      emotional_valence = None, importance = None\<rparr>"

definition tone :: "real list \<Rightarrow> wave" where
  "tone fs = \<lparr>frequencies = fs, amplitudes = map (\<lambda>f. 1) fs, phases = map (\<lambda>f. 0) fs,
              harmonics = None\<rparr>"

section \<open>Properties of the wave transform\<close>

lemma vector_to_wave_snoc:
  "vector_to_wave (v @ [x]) = wave_step (vector_to_wave v) (length v, x)"
  by (simp add: vector_to_wave_def enumerate_append_eq)

lemma vector_to_wave_frequencies:
  "frequencies (vector_to_wave v) = map (\<lambda>i. real (min (20 + i * 100) 20000)) [0..<length v]"
  by (induction v rule: rev_induct)
     (simp_all add: vector_to_wave_snoc wave_step_def Let_def,
      simp add: vector_to_wave_def empty_wave_def)

lemma vector_to_wave_amplitudes:
  "amplitudes (vector_to_wave v) = map abs v"
  by (induction v rule: rev_induct)
     (simp_all add: vector_to_wave_snoc wave_step_def Let_def,
      simp add: vector_to_wave_def empty_wave_def)

lemma vector_to_wave_phases:
  "phases (vector_to_wave v) = map (\<lambda>val. if val \<ge> 0 then 0 else pi) v"
  by (induction v rule: rev_induct)
     (simp_all add: vector_to_wave_snoc wave_step_def Let_def,
      simp add: vector_to_wave_def empty_wave_def)

lemma vector_to_wave_harmonics:
  "harmonics (vector_to_wave v) =
     Some (map (\<lambda>i. tag_harmonics (real (min (20 + i * 100) 20000))
                  (List.enumerate 0 (map (\<lambda>j. real (min (20 + j * 100) 20000)) [0..<i])))
            [0..<length v])"
proof (induction v rule: rev_induct)
  case Nil
  show ?case by (simp add: vector_to_wave_def empty_wave_def)
next
  case (snoc x v)
  show ?case
    by (simp add: vector_to_wave_snoc wave_step_def Let_def snoc.IH
        vector_to_wave_frequencies)
qed

lemma sorted_positional_frequencies:
  "sorted (map (\<lambda>i. real (min (20 + i * 100) 20000)) [0..<n])"
  by (simp add: sorted_map sorted_wrt_iff_nth_less min.coboundedI1)

text \<open>
  Claim C5. For every vector \<open>v\<close> (a finite list, of any length \<open>N\<close>),
  \<^verbatim>\<open>vector_to_wave(v)\<close> returns a wave pattern (the model has no exception branch:
  the source has none) whose frequencies, amplitudes and phases have length \<open>N\<close>; the
  frequencies are non-decreasing and at most 20000; the empty vector gives the empty
  wave pattern.
\<close>

theorem vector_to_wave_shape:
  "length (frequencies (vector_to_wave v)) = length v \<and>
   length (amplitudes (vector_to_wave v)) = length v \<and>
   length (phases (vector_to_wave v)) = length v \<and>
   sorted (frequencies (vector_to_wave v)) \<and>
   (\<forall>f \<in> set (frequencies (vector_to_wave v)). f \<le> 20000) \<and>
   vector_to_wave [] = empty_wave"
proof -
  have "\<forall>f \<in> set (frequencies (vector_to_wave v)). f \<le> 20000"
    by (auto simp: vector_to_wave_frequencies)
  moreover have "vector_to_wave [] = empty_wave"
    by (simp add: vector_to_wave_def)
  moreover have "sorted (frequencies (vector_to_wave v))"
    by (simp only: vector_to_wave_frequencies sorted_positional_frequencies)
  ultimately show ?thesis
    by (simp add: vector_to_wave_frequencies vector_to_wave_amplitudes vector_to_wave_phases)
qed

theorem vector_to_wave_shape_witness:
  "frequencies (vector_to_wave [1, - 1]) = [20, 120] \<and>
   amplitudes (vector_to_wave [1, - 1]) = [1, 1] \<and>
   phases (vector_to_wave [1, - 1]) = [0, pi] \<and>
   harmonics (vector_to_wave [1, - 1]) = Some [[], []] \<and>
   length (frequencies (vector_to_wave [1, - 1])) = length [1, - 1 :: real] \<and>
   sorted (frequencies (vector_to_wave [1, - 1])) \<and>
   list_all (\<lambda>f. f \<le> 20000) (frequencies (vector_to_wave [1, - 1]))"
  using vector_to_wave_shape [of "[1, - 1]"]
  by (simp add: vector_to_wave_def wave_step_def empty_wave_def enumerate_eq_zip upt_rec)

section \<open>Properties of the resonance scorers\<close>

lemma nth_py_in_range: "i < length xs \<Longrightarrow> nth_py xs i = Inr (xs ! i)"
  by (simp add: nth_py_def)

lemma nth_py_cases: "nth_py xs i = Inl IndexError \<or> nth_py xs i = Inr (xs ! i)"
  by (simp add: nth_py_def)

lemma resonance_loop_cong:
  "(\<And>i. i \<in> set idxs \<Longrightarrow> c1 i = c2 i) \<Longrightarrow> resonance_loop c1 idxs s = resonance_loop c2 idxs s"
  by (induction idxs arbitrary: s) (auto split: sum.splits)

lemma harmonic_loop_cong:
  "harmonics_at a i = harmonics_at b i \<Longrightarrow> harmonic_loop a i hs x = harmonic_loop b i hs x"
  by (induction hs arbitrary: x) (auto split: sum.splits)

lemma harmonic_bonus_at_sym:
  "harmonics_at a i = harmonics_at b i \<Longrightarrow> harmonic_bonus_at a b i = harmonic_bonus_at b a i"
  using harmonic_loop_cong [of a i b] by (simp add: harmonic_bonus_at_def)

lemma resonance_component_sym:
  assumes "harmonics_at a i = harmonics_at b i"
  shows "resonance_component a b i = resonance_component b a i"
  using nth_py_cases [of "frequencies a" i] nth_py_cases [of "frequencies b" i]
    nth_py_cases [of "amplitudes a" i] nth_py_cases [of "amplitudes b" i]
    nth_py_cases [of "phases a" i] nth_py_cases [of "phases b" i]
    harmonic_bonus_at_sym [OF assms]
  by (auto simp: resonance_component_def bind_err_def Let_def
      abs_minus_commute [of "frequencies a ! i"] abs_minus_commute [of "amplitudes a ! i"]
      abs_minus_commute [of "phases a ! i"] simp del: cos_abs_real split: sum.splits)

lemma calculate_resonance_sym:
  assumes "\<And>i. i < min (length (frequencies a)) (length (frequencies b)) \<Longrightarrow> harmonics_at a i = harmonics_at b i"
  shows "calculate_resonance a b = calculate_resonance b a"
proof -
  have "resonance_loop (resonance_component a b) [0..<min (length (frequencies a)) (length (frequencies b))] 0
      = resonance_loop (resonance_component b a) [0..<min (length (frequencies a)) (length (frequencies b))] 0"
    by (rule resonance_loop_cong) (simp add: resonance_component_sym assms)
  then show ?thesis
    by (simp add: calculate_resonance_def Let_def min.commute)
qed

lemma harmonics_at_vector_to_wave:
  "i < min (length v) (length w) \<Longrightarrow> harmonics_at (vector_to_wave v) i = harmonics_at (vector_to_wave w) i"
  by (simp add: harmonics_at_def vector_to_wave_harmonics nth_py_def)



lemma component_agree:
  assumes "harmonic_bonus_at a b i = Inr 1"
    and "emotional_state ctx = ''focused''" and "harmonic_preference ctx = ''balanced''"
  shows "resonance_component a b i = engine_component a b ctx i"
  using assms
  by (simp add: resonance_component_def engine_component_def bind_err_def Let_def
      preference_bonus_def emotional_modulation_def split: sum.splits)

lemma scorers_agree:
  assumes "\<And>i. i < min (length (frequencies a)) (length (frequencies b)) \<Longrightarrow> harmonic_bonus_at a b i = Inr 1"
    and "emotional_state ctx = ''focused''" and "harmonic_preference ctx = ''balanced''"
  shows "calculate_resonance a b = engine_calculate_resonance a b ctx"
proof -
  have "resonance_loop (resonance_component a b) [0..<min (length (frequencies a)) (length (frequencies b))] 0
      = resonance_loop (engine_component a b ctx) [0..<min (length (frequencies a)) (length (frequencies b))] 0"
    by (rule resonance_loop_cong) (simp add: component_agree assms)
  then show ?thesis
    by (simp add: calculate_resonance_def engine_calculate_resonance_def Let_def)
qed

lemma resonance_loop_const:
  "(\<And>i. i \<in> set idxs \<Longrightarrow> c i = Inr k) \<Longrightarrow>
   resonance_loop c idxs s = Inr (s + k * real (length idxs))"
  by (induction idxs arbitrary: s) (auto simp: algebra_simps)

lemma engine_component_self:
  assumes "i < length (frequencies a)" "i < length (amplitudes a)" "i < length (phases a)"
    and "emotional_state ctx = ''focused''" and "harmonic_preference ctx = ''balanced''"
  shows "engine_component a a ctx i = Inr 1"
  using assms by (simp add: engine_component_def bind_err_def nth_py_def Let_def
      preference_bonus_def emotional_modulation_def)

lemma resonance_loop_scale:
  "(\<And>i. i \<in> set idxs \<Longrightarrow> c2 i = (case c1 i of Inl e \<Rightarrow> Inl e | Inr x \<Rightarrow> Inr (x * k))) \<Longrightarrow>
   resonance_loop c2 idxs (s * k) =
     (case resonance_loop c1 idxs s of Inl e \<Rightarrow> Inl e | Inr x \<Rightarrow> Inr (x * k))"
proof (induction idxs arbitrary: s)
  case Nil
  show ?case by simp
next
  case (Cons i idxs)
  have step: "c2 i = (case c1 i of Inl e \<Rightarrow> Inl e | Inr x \<Rightarrow> Inr (x * k))"
    by (rule Cons.prems) simp
  show ?case
  proof (cases "c1 i")
    case (Inl e)
    with step show ?thesis by simp
  next
    case (Inr c)
    have "resonance_loop c2 idxs ((s + c) * k) =
       (case resonance_loop c1 idxs (s + c) of Inl e \<Rightarrow> Inl e | Inr x \<Rightarrow> Inr (x * k))"
      by (rule Cons.IH) (simp add: Cons.prems)
    moreover have "s * k + c * k = (s + c) * k"
      by (simp add: algebra_simps)
    ultimately show ?thesis using step Inr by simp
  qed
qed

lemma emotional_modulation_raw:
  "emotional_state cr = ''raw'' \<Longrightarrow>
   emotional_modulation cr ac x = x * (2 * truth_amplification cr)"
  by (simp add: emotional_modulation_def)

lemma emotional_modulation_focused:
  "emotional_state cf = ''focused'' \<Longrightarrow> emotional_modulation cf ac x = x"
  by (simp add: emotional_modulation_def)

lemma preference_bonus_cong:
  "harmonic_preference cr = harmonic_preference cf \<Longrightarrow> preference_bonus cr = preference_bonus cf"
  by (rule ext) (simp add: preference_bonus_def)

lemma engine_component_raw:
  assumes "emotional_state cf = ''focused''" "emotional_state cr = ''raw''"
    and "harmonic_preference cr = harmonic_preference cf"
  shows "engine_component a b cr i =
         (case engine_component a b cf i of Inl e \<Rightarrow> Inl e
          | Inr x \<Rightarrow> Inr (x * (2 * truth_amplification cr)))"
  by (simp add: engine_component_def bind_err_def Let_def
      emotional_modulation_raw [OF assms(2)] emotional_modulation_focused [OF assms(1)]
      preference_bonus_cong [OF assms(3)] split: sum.splits)

lemma engine_raw_scales:
  assumes "emotional_state cf = ''focused''" "emotional_state cr = ''raw''"
    and "harmonic_preference cr = harmonic_preference cf"
  shows "engine_calculate_resonance a b cr =
         (case engine_calculate_resonance a b cf of Inl e \<Rightarrow> Inl e
          | Inr x \<Rightarrow> Inr (x * (2 * truth_amplification cr)))"
proof -
  let ?n = "min (length (frequencies a)) (length (frequencies b))"
  let ?k = "2 * truth_amplification cr"
  have "resonance_loop (engine_component a b cr) [0..<?n] (0 * ?k) =
     (case resonance_loop (engine_component a b cf) [0..<?n] 0 of Inl e \<Rightarrow> Inl e
      | Inr x \<Rightarrow> Inr (x * ?k))"
    by (rule resonance_loop_scale) (rule engine_component_raw [OF assms])
  then show ?thesis
    by (simp add: engine_calculate_resonance_def Let_def bind_err_def split: sum.splits)
qed


lemma vector_to_wave_ones:
  "vector_to_wave [1, 1, 1, 1] =
     \<lparr>frequencies = [20, 120, 220, 320], amplitudes = [1, 1, 1, 1], phases = [0, 0, 0, 0],
      harmonics = Some [[], [], [], [(2, ''fifth'')]]\<rparr>"
  by (simp add: vector_to_wave_def wave_step_def empty_wave_def enumerate_eq_zip upt_rec)

text \<open>
  Against claim C1 as stated: for the wave pattern of the vector \<open>[1, 1, 1, 1]\<close> compared
  with itself, index 3 carries the tag \<open>(2, fifth)\<close> on both sides; the ingestion-time
  scorer multiplies that summand by 1.3 and returns \<open>43/40\<close>, the query-time scorer
  under focused/balanced never reads the tags and returns 1.
\<close>

theorem scorers_disagree_on_shared_tag:
  "calculate_resonance (vector_to_wave [1, 1, 1, 1]) (vector_to_wave [1, 1, 1, 1]) = Inr (43 / 40) \<and>
   engine_calculate_resonance (vector_to_wave [1, 1, 1, 1]) (vector_to_wave [1, 1, 1, 1])
     \<lparr>emotional_state = ''focused'', truth_amplification = 1,
      vulnerability_coefficient = 0.5, harmonic_preference = ''balanced''\<rparr> = Inr 1 \<and>
   calculate_resonance (vector_to_wave [1, 1, 1, 1]) (vector_to_wave [1, 1, 1, 1]) \<noteq>
   engine_calculate_resonance (vector_to_wave [1, 1, 1, 1]) (vector_to_wave [1, 1, 1, 1])
     \<lparr>emotional_state = ''focused'', truth_amplification = 1,
      vulnerability_coefficient = 0.5, harmonic_preference = ''balanced''\<rparr>"
  by (simp add: vector_to_wave_ones calculate_resonance_def engine_calculate_resonance_def
      resonance_component_def engine_component_def harmonic_bonus_at_def harmonics_at_def
      inner_bonus_def preference_bonus_def emotional_modulation_def
      bind_err_def nth_py_def upt_rec)

text \<open>
  Claim C1, amended. Under \<open>emotional_state = focused\<close> and
  \<open>harmonic_preference = balanced\<close> the ingestion-time and the query-time scorer return
  the same result (the same score, or the same exception) for every pair of wave
  patterns whose tag-based harmonic bonus of step 4 is 1.0 at every compared index,
  that is, where no tag of the first pattern meets a tag of the second with the same
  index. The query-time scorer has no tag-based bonus.
\<close>

theorem scorers_agree_without_tag_bonus:
  assumes "emotional_state ctx = ''focused''" and "harmonic_preference ctx = ''balanced''"
    and "\<forall>i < min (length (frequencies a)) (length (frequencies b)). harmonic_bonus_at a b i = Inr 1"
  shows "calculate_resonance a b = engine_calculate_resonance a b ctx"
  using assms by (intro scorers_agree) simp_all

theorem scorers_agree_without_tag_bonus_witness:
  "calculate_resonance (vector_to_wave [1, - 1]) (vector_to_wave [1 / 2, - 1]) =
     engine_calculate_resonance (vector_to_wave [1, - 1]) (vector_to_wave [1 / 2, - 1]) default_context \<and>
   engine_calculate_resonance (vector_to_wave [1, - 1]) (vector_to_wave [1 / 2, - 1]) default_context
     = Inr (3 / 4)"
proof -
  have wa: "vector_to_wave [1, - 1] =
     \<lparr>frequencies = [20, 120], amplitudes = [1, 1], phases = [0, pi], harmonics = Some [[], []]\<rparr>"
    by (simp add: vector_to_wave_def wave_step_def empty_wave_def enumerate_eq_zip upt_rec)
  have wb: "vector_to_wave [1 / 2, - 1] =
     \<lparr>frequencies = [20, 120], amplitudes = [1 / 2, 1], phases = [0, pi], harmonics = Some [[], []]\<rparr>"
    by (simp add: vector_to_wave_def wave_step_def empty_wave_def enumerate_eq_zip upt_rec)
  have bonus: "\<forall>i < min (length (frequencies (vector_to_wave [1, - 1])))
                         (length (frequencies (vector_to_wave [1 / 2, - 1]))).
      harmonic_bonus_at (vector_to_wave [1, - 1]) (vector_to_wave [1 / 2, - 1]) i = Inr 1"
    by (auto simp: wa wb harmonic_bonus_at_def harmonics_at_def bind_err_def nth_py_def
        less_Suc_eq numeral_2_eq_2)
  have "engine_calculate_resonance (vector_to_wave [1, - 1]) (vector_to_wave [1 / 2, - 1]) default_context
     = Inr (3 / 4)"
    by (simp add: wa wb engine_calculate_resonance_def engine_component_def default_context_def
        preference_bonus_def emotional_modulation_def bind_err_def nth_py_def upt_rec)
  with scorers_agree_without_tag_bonus [of default_context, OF _ _ bonus]
  show ?thesis by (simp add: default_context_def)
qed

text \<open>
  Claim C3. The ingestion-time scorer is symmetric on wave patterns: for every pair of
  patterns produced by \<^verbatim>\<open>vector_to_wave\<close> (the only producer of
  \<^verbatim>\<open>LibraryDocument.wave_pattern\<close>, which is all the scorer's callers pass),
  \<^verbatim>\<open>calculate_resonance(a, b)\<close> equals \<^verbatim>\<open>calculate_resonance(b, a)\<close>. The tags of
  such patterns depend on the index alone, so both arguments carry the same tags at
  every compared index.
\<close>

theorem calculate_resonance_symmetric:
  "calculate_resonance (vector_to_wave v) (vector_to_wave w) =
   calculate_resonance (vector_to_wave w) (vector_to_wave v)"
proof (rule calculate_resonance_sym)
  fix i
  assume "i < min (length (frequencies (vector_to_wave v))) (length (frequencies (vector_to_wave w)))"
  then have "i < min (length v) (length w)"
    by (simp add: vector_to_wave_frequencies)
  then show "harmonics_at (vector_to_wave v) i = harmonics_at (vector_to_wave w) i"
    by (rule harmonics_at_vector_to_wave)
qed

theorem calculate_resonance_symmetric_witness:
  "calculate_resonance (vector_to_wave [1, 1, 1, 1]) (vector_to_wave [1 / 2, 1, 1, - 1]) =
     Inr (3 / 10) \<and>
   calculate_resonance (vector_to_wave [1 / 2, 1, 1, - 1]) (vector_to_wave [1, 1, 1, 1]) =
     Inr (3 / 10)"
proof -
  have w: "vector_to_wave [1 / 2, 1, 1, - 1] =
     \<lparr>frequencies = [20, 120, 220, 320], amplitudes = [1 / 2, 1, 1, 1], phases = [0, 0, 0, pi],
      harmonics = Some [[], [], [], [(2, ''fifth'')]]\<rparr>"
    by (simp add: vector_to_wave_def wave_step_def empty_wave_def enumerate_eq_zip upt_rec)
  have "calculate_resonance (vector_to_wave [1, 1, 1, 1]) (vector_to_wave [1 / 2, 1, 1, - 1]) =
     Inr (3 / 10)"
    by (simp add: vector_to_wave_ones w calculate_resonance_def resonance_component_def
        harmonic_bonus_at_def harmonics_at_def inner_bonus_def bind_err_def nth_py_def upt_rec)
  with calculate_resonance_symmetric [of "[1, 1, 1, 1]" "[1 / 2, 1, 1, - 1]"]
  show ?thesis by simp
qed

text \<open>
  Outside the patterns \<^verbatim>\<open>vector_to_wave\<close> produces the scorer is directional: the test
  \<^verbatim>\<open>h1[0] == h2[0]\<close>, commented \<^verbatim>\<open># Same harmonic relationship\<close>, compares the
  index of the tags only, and the bonus follows the label of the first argument. For
  two hand-built patterns whose second components are tagged with the index 0 under
  different labels the bonus is 1.5 one way and 1.3 the other.
\<close>

lemma calculate_resonance_directional_on_mixed_labels:
  "calculate_resonance
     \<lparr>frequencies = [20, 40], amplitudes = [1, 1], phases = [0, 0],
      harmonics = Some [[], [(0, ''octave'')]]\<rparr>
     \<lparr>frequencies = [20, 30], amplitudes = [1, 1], phases = [0, 0],
      harmonics = Some [[], [(0, ''fifth'')]]\<rparr> = Inr (13 / 11) \<and>
   calculate_resonance
     \<lparr>frequencies = [20, 30], amplitudes = [1, 1], phases = [0, 0],
      harmonics = Some [[], [(0, ''fifth'')]]\<rparr>
     \<lparr>frequencies = [20, 40], amplitudes = [1, 1], phases = [0, 0],
      harmonics = Some [[], [(0, ''octave'')]]\<rparr> = Inr (12 / 11)"
  by (simp add: calculate_resonance_def resonance_component_def harmonic_bonus_at_def
      harmonics_at_def inner_bonus_def bind_err_def nth_py_def upt_rec)

lemma engine_reflexive_general:
  assumes "frequencies a \<noteq> []"
    and "length (frequencies a) \<le> length (amplitudes a)"
    and "length (frequencies a) \<le> length (phases a)"
    and "emotional_state ctx = ''focused''" and "harmonic_preference ctx = ''balanced''"
  shows "engine_calculate_resonance a a ctx = Inr 1"
proof -
  have "resonance_loop (engine_component a a ctx) [0..<length (frequencies a)] 0
      = Inr (0 + 1 * real (length [0..<length (frequencies a)]))"
    using assms by (intro resonance_loop_const engine_component_self) auto
  with assms(1) show ?thesis
    by (simp add: engine_calculate_resonance_def Let_def bind_err_def)
qed

text \<open>
  Claim C6. For every non-empty wave pattern \<open>a\<close> (its amplitudes and phases at least
  as long as its frequencies, as the equal lengths of a wave pattern give), the
  query-time score of \<open>a\<close> against itself under \<open>emotional_state = focused\<close> and
  \<open>harmonic_preference = balanced\<close> is exactly 1.
\<close>

theorem engine_resonance_reflexive:
  assumes "frequencies a \<noteq> []"
    and "length (frequencies a) \<le> length (amplitudes a)"
    and "length (frequencies a) \<le> length (phases a)"
    and "emotional_state ctx = ''focused''" and "harmonic_preference ctx = ''balanced''"
  shows "engine_calculate_resonance a a ctx = Inr 1"
  using assms by (rule engine_reflexive_general)

theorem engine_resonance_reflexive_witness:
  "engine_calculate_resonance (vector_to_wave [3, - 2, 0]) (vector_to_wave [3, - 2, 0])
     default_context = Inr 1"
  using engine_resonance_reflexive [of "vector_to_wave [3, - 2, 0]" default_context]
  by (simp add: vector_to_wave_frequencies vector_to_wave_amplitudes vector_to_wave_phases
      default_context_def)

text \<open>
  In exact arithmetic the score under \<open>emotional_state = raw\<close> is the score under
  \<open>focused\<close> (same harmonic preference) times \<open>2 * truth_amplification\<close>. This is a
  fact of the real-number model only: the source multiplies and rounds every summand in
  floating point before adding, so it says nothing on how the two rounded scores of
  the program compare.
\<close>

lemma raw_scales_focused_exact:
  assumes "emotional_state cf = ''focused''" and "emotional_state cr = ''raw''"
    and "harmonic_preference cr = harmonic_preference cf"
    and "engine_calculate_resonance a b cf = Inr f"
  shows "engine_calculate_resonance a b cr = Inr (f * (2 * truth_amplification cr))"
  using engine_raw_scales [OF assms(1-3), of a b] assms(4) by simp

section \<open>Properties of the graph builders\<close>

lemma sorted_reverse_descending:
  "sorted_wrt (\<lambda>x y. key x \<ge> key y) (sorted_reverse key xs)"
proof -
  have "sorted (map (\<lambda>x. - key x) (sort_key (\<lambda>x. - key x) xs))"
    by (rule sorted_sort_key)
  then show ?thesis
    by (simp add: sorted_reverse_def sorted_map)
qed

lemma set_sorted_reverse: "set (sorted_reverse key xs) = set xs"
  by (simp add: sorted_reverse_def)

lemma length_sorted_reverse: "length (sorted_reverse key xs) = length xs"
  by (simp add: sorted_reverse_def)

lemma strong_links_take:
  "\<forall>x \<in> set xs. key x > 0.5 \<Longrightarrow> strong_links k key (take k (sorted_reverse key xs))"
  unfolding strong_links_def
  by (auto simp: sorted_wrt_take sorted_reverse_descending set_sorted_reverse
      dest!: in_set_takeD)

lemma mem8_resonances_strong:
  "mem8_resonances i doc others acc = Inr rs \<Longrightarrow> \<forall>p \<in> set acc. snd p > 0.5 \<Longrightarrow>
   \<forall>p \<in> set rs. snd p > 0.5"
proof (induction i doc others acc rule: mem8_resonances.induct)
  case (1 i doc resonances)
  then show ?case by simp
next
  case (2 i doc j other_doc rest resonances)
  show ?case
  proof (cases "i \<noteq> j")
    case False
    with "2.prems" "2.IH"(2) show ?thesis by simp
  next
    case True
    with "2.prems"(1) obtain resonance where
      r: "calculate_resonance_py (doc_wave_pattern doc) (doc_wave_pattern other_doc) = Inr resonance"
      and rest: "mem8_resonances i doc rest
               (if resonance > 0.5 then resonances @ [(doc_id other_doc, resonance)]
                else resonances) = Inr rs"
      by (simp split: sum.splits)
    have "\<forall>p \<in> set (if resonance > 0.5 then resonances @ [(doc_id other_doc, resonance)]
                else resonances). snd p > 0.5"
      using "2.prems"(2) by simp
    with "2.IH"(1) [OF True r rest] show ?thesis .
  qed
qed

lemma mem8_graph_loop_strong:
  "mem8_graph_loop docs idocs g = Inr g' \<Longrightarrow>
   (\<And>d ns. g d = Some ns \<Longrightarrow> strong_links 10 snd ns) \<Longrightarrow>
   g' d = Some ns \<Longrightarrow> strong_links 10 snd ns"
proof (induction docs idocs g arbitrary: d ns rule: mem8_graph_loop.induct)
  case (1 docs graph)
  then show ?case by simp
next
  case (2 docs i doc rest graph)
  from "2.prems"(1) obtain resonances where
    r: "mem8_resonances i doc (List.enumerate 0 docs) [] = Inr resonances"
    and rest: "mem8_graph_loop docs rest
            (if resonances \<noteq> []
             then graph(doc_id doc \<mapsto> take 10 (sorted_reverse snd resonances))
             else graph) = Inr g'"
    by (auto split: sum.splits)
  have strong: "\<forall>p \<in> set resonances. snd p > 0.5"
    using mem8_resonances_strong [OF r] by simp
  show ?case
  proof (rule "2.IH" [OF r rest _ "2.prems"(3)])
    fix d' ns'
    assume "(if resonances \<noteq> []
             then graph(doc_id doc \<mapsto> take 10 (sorted_reverse snd resonances))
             else graph) d' = Some ns'"
    then show "strong_links 10 snd ns'"
      using "2.prems"(2) strong_links_take [OF strong, of 10]
      by (auto split: if_splits)
  qed
qed

lemma mem8_category_loop_strong:
  "mem8_category_loop cats written = Inr indices \<Longrightarrow>
   (\<And>idx d ns. idx \<in> set written \<Longrightarrow> index_resonance_graph idx d = Some ns \<Longrightarrow> strong_links 10 snd ns) \<Longrightarrow>
   idx \<in> set indices \<Longrightarrow> index_resonance_graph idx d = Some ns \<Longrightarrow> strong_links 10 snd ns"
proof (induction cats written arbitrary: idx d ns rule: mem8_category_loop.induct)
  case (1 written)
  then show ?case by auto
next
  case (2 category docs rest written)
  from "2.prems"(1) obtain graph where
    g: "mem8_graph_loop docs (List.enumerate 0 docs) Map.empty = Inr graph"
    and rest: "mem8_category_loop rest
            (written @ [\<lparr>index_category = category, document_count = length docs,
                         index_documents = map doc_id docs,
                         index_resonance_graph = graph\<rparr>]) = Inr indices"
    by (auto split: sum.splits)
  show ?case
  proof (rule "2.IH" [OF g rest _ "2.prems"(3,4)])
    fix idx' d' ns'
    assume "idx' \<in> set (written @ [\<lparr>index_category = category, document_count = length docs,
                         index_documents = map doc_id docs,
                         index_resonance_graph = graph\<rparr>])"
      and "index_resonance_graph idx' d' = Some ns'"
    then show "strong_links 10 snd ns'"
      using "2.prems"(2) mem8_graph_loop_strong [OF g, of d' ns']
      by auto
  qed
qed


lemma qdrant_resonances_strong:
  "qdrant_resonances c i doc others acc = Inr rs \<Longrightarrow> \<forall>l \<in> set acc. link_resonance l > 0.5 \<Longrightarrow>
   \<forall>l \<in> set rs. link_resonance l > 0.5"
proof (induction c i doc others acc rule: qdrant_resonances.induct)
  case (1 category i doc1 resonances)
  then show ?case by simp
next
  case (2 category i doc1 j doc2 rest resonances)
  show ?case
  proof (cases "i = j \<or> doc_wave_pattern doc2 = None")
    case True
    with "2.prems" "2.IH"(1) show ?thesis by simp
  next
    case False
    with "2.prems"(1) obtain resonance where
      r: "calculate_resonance_py (doc_wave_pattern doc1) (doc_wave_pattern doc2) = Inr resonance"
      and rest: "qdrant_resonances category i doc1 rest
               (if resonance > 0.5
                then resonances @ [\<lparr>target_id = doc_id doc2, link_resonance = resonance,
                                    link_category = category\<rparr>]
                else resonances) = Inr rs"
      by (simp split: sum.splits)
    have "\<forall>l \<in> set (if resonance > 0.5
                then resonances @ [\<lparr>target_id = doc_id doc2, link_resonance = resonance,
                                    link_category = category\<rparr>]
                else resonances). link_resonance l > 0.5"
      using "2.prems"(2) by simp
    with "2.IH"(2) [OF False r rest] show ?thesis .
  qed
qed

lemma qdrant_doc_loop_strong:
  "qdrant_doc_loop c docs idocs g = Inr g' \<Longrightarrow>
   (\<And>d ns. g d = Some ns \<Longrightarrow> strong_links 20 link_resonance ns) \<Longrightarrow>
   g' d = Some ns \<Longrightarrow> strong_links 20 link_resonance ns"
proof (induction c docs idocs g arbitrary: d ns rule: qdrant_doc_loop.induct)
  case (1 category docs resonance_data)
  then show ?case by simp
next
  case (2 category docs i doc1 rest resonance_data)
  show ?case
  proof (cases "doc_wave_pattern doc1 = None")
    case True
    with "2.prems" "2.IH"(1) show ?thesis by simp
  next
    case False
    with "2.prems"(1) obtain resonances where
      r: "qdrant_resonances category i doc1 (List.enumerate 0 docs) [] = Inr resonances"
      and rest: "qdrant_doc_loop category docs rest
              (if resonances \<noteq> []
               then resonance_data(doc_id doc1 \<mapsto> take 20 (sorted_reverse link_resonance resonances))
               else resonance_data) = Inr g'"
      by (auto split: sum.splits)
    have strong: "\<forall>l \<in> set resonances. link_resonance l > 0.5"
      using qdrant_resonances_strong [OF r] by simp
    show ?thesis
    proof (rule "2.IH"(2) [OF False r rest _ "2.prems"(3)])
      fix d' ns'
      assume "(if resonances \<noteq> []
               then resonance_data(doc_id doc1 \<mapsto> take 20 (sorted_reverse link_resonance resonances))
               else resonance_data) d' = Some ns'"
      then show "strong_links 20 link_resonance ns'"
        using "2.prems"(2) strong_links_take [OF strong, of 20]
        by (auto split: if_splits)
    qed
  qed
qed

lemma qdrant_category_loop_strong:
  "qdrant_category_loop cats g = Inr g' \<Longrightarrow>
   (\<And>d ns. g d = Some ns \<Longrightarrow> strong_links 20 link_resonance ns) \<Longrightarrow>
   g' d = Some ns \<Longrightarrow> strong_links 20 link_resonance ns"
proof (induction cats g arbitrary: d ns rule: qdrant_category_loop.induct)
  case (1 resonance_data)
  then show ?case by simp
next
  case (2 category docs rest resonance_data)
  from "2.prems"(1) obtain g1 where
    g1: "qdrant_doc_loop category docs (List.enumerate 0 docs) resonance_data = Inr g1"
    and rest: "qdrant_category_loop rest g1 = Inr g'"
    by (auto split: sum.splits)
  show ?case
    by (rule "2.IH" [OF g1 rest _ "2.prems"(3)])
       (rule qdrant_doc_loop_strong [OF g1 "2.prems"(2)])
qed

text \<open>
  Claim C4. For every document of a built resonance graph, the neighbour list has at
  most \<open>K\<close> entries (\<open>K = 10\<close> in \<^verbatim>\<open>Mem8Ingester.ingest_documents\<close>, \<open>K = 20\<close> in
  \<^verbatim>\<open>QdrantIngester.create_resonance_indices\<close>), is sorted descending by resonance
  score, and every listed score is strictly above 0.5.
\<close>

theorem resonance_graph_top_k:
  "(ingest_documents documents = Inr indices \<longrightarrow> idx \<in> set indices \<longrightarrow>
      index_resonance_graph idx d = Some ns \<longrightarrow>
      length ns \<le> 10 \<and> sorted_wrt (\<lambda>x y. snd x \<ge> snd y) ns \<and> (\<forall>x \<in> set ns. snd x > 0.5)) \<and>
   (create_resonance_indices documents = Inr resonance_data \<longrightarrow>
      resonance_data d = Some links \<longrightarrow>
      length links \<le> 20 \<and> sorted_wrt (\<lambda>x y. link_resonance x \<ge> link_resonance y) links \<and>
      (\<forall>x \<in> set links. link_resonance x > 0.5))"
proof (intro conjI impI)
  assume a: "ingest_documents documents = Inr indices" "idx \<in> set indices"
    "index_resonance_graph idx d = Some ns"
  have "strong_links 10 snd ns"
    using a mem8_category_loop_strong [of "group_by_category documents" "[]" indices idx d ns]
    by (simp add: ingest_documents_def)
  then show "length ns \<le> 10" "sorted_wrt (\<lambda>x y. snd x \<ge> snd y) ns" "\<forall>x \<in> set ns. snd x > 0.5"
    by (simp_all add: strong_links_def)
next
  assume a: "create_resonance_indices documents = Inr resonance_data" "resonance_data d = Some links"
  have "strong_links 20 link_resonance links"
    using a qdrant_category_loop_strong [of "group_by_category documents" Map.empty resonance_data d links]
    by (simp add: create_resonance_indices_def)
  then show "length links \<le> 20" "sorted_wrt (\<lambda>x y. link_resonance x \<ge> link_resonance y) links"
    "\<forall>x \<in> set links. link_resonance x > 0.5"
    by (simp_all add: strong_links_def)
qed

lemma wave_of_one:
  "vector_to_wave [1] =
     \<lparr>frequencies = [20], amplitudes = [1], phases = [0], harmonics = Some [[]]\<rparr>"
  by (simp add: vector_to_wave_def wave_step_def empty_wave_def enumerate_eq_zip)

lemma wave_of_three_quarters:
  "vector_to_wave [3 / 4] =
     \<lparr>frequencies = [20], amplitudes = [3 / 4], phases = [0], harmonics = Some [[]]\<rparr>"
  by (simp add: vector_to_wave_def wave_step_def empty_wave_def enumerate_eq_zip)

lemma example_resonances:
  "calculate_resonance_py (Some (vector_to_wave [1])) (Some (vector_to_wave [1])) = Inr 1"
  "calculate_resonance_py (Some (vector_to_wave [1])) (Some (vector_to_wave [3 / 4])) = Inr (3 / 4)"
  "calculate_resonance_py (Some (vector_to_wave [3 / 4])) (Some (vector_to_wave [1])) = Inr (3 / 4)"
  "calculate_resonance_py None x = Inl TypeError"
  by (simp_all add: wave_of_one wave_of_three_quarters calculate_resonance_py_def
      subscript_wave_def calculate_resonance_def resonance_component_def
      harmonic_bonus_at_def harmonics_at_def bind_err_def nth_py_def)

lemma example_group:
  "group_by_category
     [library_doc ''a'' ''c'' (Some (vector_to_wave [1])),
      library_doc ''d'' ''c'' (Some (vector_to_wave [3 / 4])),
      library_doc ''b'' ''c'' (Some (vector_to_wave [1]))] =
   [(''c'', [library_doc ''a'' ''c'' (Some (vector_to_wave [1])),
             library_doc ''d'' ''c'' (Some (vector_to_wave [3 / 4])),
             library_doc ''b'' ''c'' (Some (vector_to_wave [1]))])]"
  by (simp add: group_by_category_def add_to_category_def library_doc_def)

lemma example_ingest_documents:
  "ingest_documents
     [library_doc ''a'' ''c'' (Some (vector_to_wave [1])),
      library_doc ''d'' ''c'' (Some (vector_to_wave [3 / 4])),
      library_doc ''b'' ''c'' (Some (vector_to_wave [1]))] =
   Inr [\<lparr>index_category = ''c'', document_count = 3, index_documents = [''a'', ''d'', ''b''],
         index_resonance_graph =
           [''a'' \<mapsto> [(''b'', 1), (''d'', 3 / 4)],
            ''d'' \<mapsto> [(''a'', 3 / 4), (''b'', 3 / 4)],
            ''b'' \<mapsto> [(''a'', 1), (''d'', 3 / 4)]]\<rparr>]"
  by (simp add: ingest_documents_def example_group)
     (simp add: enumerate_eq_zip upt_rec library_doc_def example_resonances sorted_reverse_def)

lemma example_create_resonance_indices:
  "create_resonance_indices
     [library_doc ''a'' ''c'' (Some (vector_to_wave [1])),
      library_doc ''d'' ''c'' (Some (vector_to_wave [3 / 4])),
      library_doc ''b'' ''c'' (Some (vector_to_wave [1]))] =
   Inr [''a'' \<mapsto> [\<lparr>target_id = ''b'', link_resonance = 1, link_category = ''c''\<rparr>,
                     \<lparr>target_id = ''d'', link_resonance = 3 / 4, link_category = ''c''\<rparr>],
        ''d'' \<mapsto> [\<lparr>target_id = ''a'', link_resonance = 3 / 4, link_category = ''c''\<rparr>,
                     \<lparr>target_id = ''b'', link_resonance = 3 / 4, link_category = ''c''\<rparr>],
        ''b'' \<mapsto> [\<lparr>target_id = ''a'', link_resonance = 1, link_category = ''c''\<rparr>,
                     \<lparr>target_id = ''d'', link_resonance = 3 / 4, link_category = ''c''\<rparr>]]"
  by (simp add: create_resonance_indices_def example_group)
     (simp add: enumerate_eq_zip upt_rec library_doc_def example_resonances sorted_reverse_def)

theorem resonance_graph_top_k_witness:
  "ingest_documents
     [library_doc ''a'' ''c'' (Some (vector_to_wave [1])),
      library_doc ''d'' ''c'' (Some (vector_to_wave [3 / 4])),
      library_doc ''b'' ''c'' (Some (vector_to_wave [1]))] =
   Inr [\<lparr>index_category = ''c'', document_count = 3, index_documents = [''a'', ''d'', ''b''],
         index_resonance_graph =
           [''a'' \<mapsto> [(''b'', 1), (''d'', 3 / 4)],
            ''d'' \<mapsto> [(''a'', 3 / 4), (''b'', 3 / 4)],
            ''b'' \<mapsto> [(''a'', 1), (''d'', 3 / 4)]]\<rparr>] \<and>
   strong_links 10 snd [(''b'', 1 :: real), (''d'', 3 / 4)] \<and>
   strong_links 20 link_resonance
     [\<lparr>target_id = ''b'', link_resonance = 1, link_category = ''c''\<rparr>,
      \<lparr>target_id = ''d'', link_resonance = 3 / 4, link_category = ''c''\<rparr>]"
  using resonance_graph_top_k
    [of "[library_doc ''a'' ''c'' (Some (vector_to_wave [1])),
          library_doc ''d'' ''c'' (Some (vector_to_wave [3 / 4])),
          library_doc ''b'' ''c'' (Some (vector_to_wave [1]))]"
        "[\<lparr>index_category = ''c'', document_count = 3, index_documents = [''a'', ''d'', ''b''],
         index_resonance_graph =
           [''a'' \<mapsto> [(''b'', 1), (''d'', 3 / 4)],
            ''d'' \<mapsto> [(''a'', 3 / 4), (''b'', 3 / 4)],
            ''b'' \<mapsto> [(''a'', 1), (''d'', 3 / 4)]]\<rparr>]"
        "\<lparr>index_category = ''c'', document_count = 3, index_documents = [''a'', ''d'', ''b''],
         index_resonance_graph =
           [''a'' \<mapsto> [(''b'', 1), (''d'', 3 / 4)],
            ''d'' \<mapsto> [(''a'', 3 / 4), (''b'', 3 / 4)],
            ''b'' \<mapsto> [(''a'', 1), (''d'', 3 / 4)]]\<rparr>"
        "''a''" "[(''b'', 1), (''d'', 3 / 4)]"
        "[''a'' \<mapsto> [\<lparr>target_id = ''b'', link_resonance = 1, link_category = ''c''\<rparr>,
                     \<lparr>target_id = ''d'', link_resonance = 3 / 4, link_category = ''c''\<rparr>],
        ''d'' \<mapsto> [\<lparr>target_id = ''a'', link_resonance = 3 / 4, link_category = ''c''\<rparr>,
                     \<lparr>target_id = ''b'', link_resonance = 3 / 4, link_category = ''c''\<rparr>],
        ''b'' \<mapsto> [\<lparr>target_id = ''a'', link_resonance = 1, link_category = ''c''\<rparr>,
                     \<lparr>target_id = ''d'', link_resonance = 3 / 4, link_category = ''c''\<rparr>]]"
        "[\<lparr>target_id = ''b'', link_resonance = 1, link_category = ''c''\<rparr>,
          \<lparr>target_id = ''d'', link_resonance = 3 / 4, link_category = ''c''\<rparr>]"]
    example_ingest_documents example_create_resonance_indices
  by (simp add: strong_links_def)

lemma add_to_category_members:
  "\<Union> (set ` snd ` set (add_to_category cats doc)) = insert doc (\<Union> (set ` snd ` set cats))"
  by (auto simp: add_to_category_def image_iff split: if_splits)


lemma group_by_category_members:
  "\<Union> (set ` snd ` set (group_by_category documents)) = set documents"
proof -
  have "\<Union> (set ` snd ` set (foldl add_to_category cats docs)) =
        set docs \<union> \<Union> (set ` snd ` set cats)" for cats docs
  proof (induction docs arbitrary: cats)
    case Nil
    show ?case by simp
  next
    case (Cons a docs)
    have "\<Union> (set ` snd ` set (foldl add_to_category cats (a # docs))) =
          set docs \<union> \<Union> (set ` snd ` set (add_to_category cats a))"
      using Cons.IH [of "add_to_category cats a"] by simp
    also have "\<dots> = set docs \<union> insert a (\<Union> (set ` snd ` set cats))"
      by (simp only: add_to_category_members)
    finally show ?case by simp
  qed
  then show ?thesis by (simp add: group_by_category_def)
qed

lemma qdrant_resonances_skips:
  assumes "doc_wave_pattern doc1 = Some w1" and "doc1 \<in> D" and "scorable D"
    and "snd ` set others \<subseteq> D"
    and "\<forall>l \<in> set acc. waved D (target_id l)"
  shows "\<exists>rs. qdrant_resonances c i doc1 others acc = Inr rs \<and>
              (\<forall>l \<in> set rs. waved D (target_id l))"
  using assms(4,5)
proof (induction others arbitrary: acc)
  case Nil
  then show ?case by simp
next
  case (Cons jd others)
  obtain j doc2 where jd: "jd = (j, doc2)" by (cases jd)
  have doc2: "doc2 \<in> D" and rest: "snd ` set others \<subseteq> D"
    using Cons.prems(1) by (auto simp: jd)
  show ?case
  proof (cases "i = j \<or> doc_wave_pattern doc2 = None")
    case True
    then show ?thesis
      using Cons.IH [OF rest Cons.prems(2)] by (auto simp: jd)
  next
    case False
    then obtain w2 where w2: "doc_wave_pattern doc2 = Some w2" by auto
    obtain r where r: "calculate_resonance w1 w2 = Inr r"
      using assms(1-3) doc2 w2 unfolding scorable_def by blast
    have call: "calculate_resonance_py (doc_wave_pattern doc1) (doc_wave_pattern doc2) = Inr r"
      by (simp add: calculate_resonance_py_def subscript_wave_def bind_err_def assms(1) w2 r)
    have "waved D (doc_id doc2)"
      using doc2 w2 by (auto simp: waved_def)
    define acc' where "acc' = (if r > 0.5
                then acc @ [\<lparr>target_id = doc_id doc2, link_resonance = r, link_category = c\<rparr>]
                else acc)"
    have "\<forall>l \<in> set acc'. waved D (target_id l)"
      using Cons.prems(2) \<open>waved D (doc_id doc2)\<close> by (simp add: acc'_def)
    from Cons.IH [OF rest this] obtain rs where
      "qdrant_resonances c i doc1 others acc' = Inr rs" "\<forall>l \<in> set rs. waved D (target_id l)"
      by blast
    moreover have "qdrant_resonances c i doc1 (jd # others) acc =
        qdrant_resonances c i doc1 others acc'"
      using False by (simp add: jd call [unfolded w2] acc'_def w2)
    ultimately show ?thesis by simp
  qed
qed

lemma qdrant_doc_loop_skips:
  assumes "scorable D" and "set docs \<subseteq> D"
  shows "snd ` set idocs \<subseteq> D \<Longrightarrow> skips_unwaved D g \<Longrightarrow>
         \<exists>g'. qdrant_doc_loop c docs idocs g = Inr g' \<and> skips_unwaved D g'"
proof (induction idocs arbitrary: g)
  case Nil
  then show ?case by simp
next
  case (Cons idoc idocs)
  obtain i doc1 where idoc: "idoc = (i, doc1)" by (cases idoc)
  have doc1: "doc1 \<in> D" and rest: "snd ` set idocs \<subseteq> D"
    using Cons.prems(1) by (auto simp: idoc)
  show ?case
  proof (cases "doc_wave_pattern doc1")
    case None
    then show ?thesis
      using Cons.IH [OF rest Cons.prems(2)] by (simp add: idoc)
  next
    case (Some w1)
    have "snd ` set (List.enumerate 0 docs) \<subseteq> D"
      using assms(2) by (auto simp: enumerate_eq_zip dest: set_zip_rightD)
    then obtain rs where rs: "qdrant_resonances c i doc1 (List.enumerate 0 docs) [] = Inr rs"
      "\<forall>l \<in> set rs. waved D (target_id l)"
      using qdrant_resonances_skips [OF Some doc1 assms(1), of "List.enumerate 0 docs" "[]" c i]
      by auto
    have "waved D (doc_id doc1)"
      using doc1 Some by (auto simp: waved_def)
    define g1 where "g1 = (if rs \<noteq> []
        then g(doc_id doc1 \<mapsto> take 20 (sorted_reverse link_resonance rs)) else g)"
    have "skips_unwaved D g1"
      using Cons.prems(2) rs(2) \<open>waved D (doc_id doc1)\<close>
      by (auto simp: g1_def skips_unwaved_def sorted_reverse_def dest!: in_set_takeD)
    from Cons.IH [OF rest this] obtain g' where
      "qdrant_doc_loop c docs idocs g1 = Inr g'" "skips_unwaved D g'"
      by blast
    moreover have "qdrant_doc_loop c docs (idoc # idocs) g = qdrant_doc_loop c docs idocs g1"
      using Some rs(1) by (simp add: idoc g1_def)
    ultimately show ?thesis by simp
  qed
qed

lemma qdrant_category_loop_skips:
  assumes "scorable D"
  shows "\<Union> (set ` snd ` set cats) \<subseteq> D \<Longrightarrow> skips_unwaved D g \<Longrightarrow>
         \<exists>g'. qdrant_category_loop cats g = Inr g' \<and> skips_unwaved D g'"
proof (induction cats arbitrary: g)
  case Nil
  then show ?case by simp
next
  case (Cons cat cats)
  obtain c docs where cat: "cat = (c, docs)" by (cases cat)
  have docs: "set docs \<subseteq> D" and rest: "\<Union> (set ` snd ` set cats) \<subseteq> D"
    using Cons.prems(1) by (auto simp: cat)
  have "snd ` set (List.enumerate 0 docs) \<subseteq> D"
    using docs by (auto simp: enumerate_eq_zip dest: set_zip_rightD)
  then obtain g1 where g1: "qdrant_doc_loop c docs (List.enumerate 0 docs) g = Inr g1"
    "skips_unwaved D g1"
    using qdrant_doc_loop_skips [OF assms docs _ Cons.prems(2)] by blast
  from Cons.IH [OF rest g1(2)] show ?case
    by (simp add: cat g1(1))
qed

text \<open>
  \<^verbatim>\<open>QdrantIngester.create_resonance_indices\<close> skips documents without wave pattern:
  whenever the wave patterns that are present can be scored, it returns a graph, and
  no document without wave pattern is a key or a link target of it.
\<close>

lemma create_resonance_indices_skips:
  assumes "scorable (set documents)"
  shows "\<exists>g. create_resonance_indices documents = Inr g \<and> skips_unwaved (set documents) g"
proof -
  have "\<Union> (set ` snd ` set (group_by_category documents)) \<subseteq> set documents"
    by (simp only: group_by_category_members subset_refl)
  moreover have "skips_unwaved (set documents) Map.empty"
    by (simp add: skips_unwaved_def)
  ultimately show ?thesis
    unfolding create_resonance_indices_def
    by (rule qdrant_category_loop_skips [OF assms])
qed

text \<open>
  Claim C2, at a failing input of \<^verbatim>\<open>Mem8Ingester.ingest_documents\<close>: a category with a
  document without wave pattern and two documents with one. The scorer is called
  with \<^verbatim>\<open>None\<close> and raises TypeError, so the call ends before the index of the
  category is written, while \<^verbatim>\<open>QdrantIngester.create_resonance_indices\<close>, which
  tests \<^verbatim>\<open>wave_pattern\<close> first, skips the document and links the two others.
\<close>

theorem mem8_ingest_raises_without_wave:
  "ingest_documents
     [library_doc ''n'' ''c'' None,
      library_doc ''a'' ''c'' (Some (vector_to_wave [1])),
      library_doc ''b'' ''c'' (Some (vector_to_wave [1]))] = Inl TypeError \<and>
   create_resonance_indices
     [library_doc ''n'' ''c'' None,
      library_doc ''a'' ''c'' (Some (vector_to_wave [1])),
      library_doc ''b'' ''c'' (Some (vector_to_wave [1]))] =
   Inr [''a'' \<mapsto> [\<lparr>target_id = ''b'', link_resonance = 1, link_category = ''c''\<rparr>],
        ''b'' \<mapsto> [\<lparr>target_id = ''a'', link_resonance = 1, link_category = ''c''\<rparr>]]"
proof -
  have group: "group_by_category
     [library_doc ''n'' ''c'' None,
      library_doc ''a'' ''c'' (Some (vector_to_wave [1])),
      library_doc ''b'' ''c'' (Some (vector_to_wave [1]))] =
     [(''c'', [library_doc ''n'' ''c'' None,
      library_doc ''a'' ''c'' (Some (vector_to_wave [1])),
      library_doc ''b'' ''c'' (Some (vector_to_wave [1]))])]"
    by (simp add: group_by_category_def add_to_category_def library_doc_def)
  show ?thesis
    by (simp add: ingest_documents_def create_resonance_indices_def group)
       (simp add: enumerate_eq_zip upt_rec library_doc_def example_resonances sorted_reverse_def)
qed

section \<open>Properties of the harmonics finder\<close>

lemma harmonic_score_loop_total:
  "\<forall>i \<in> set idxs. i < length bf \<and> i < length ofs \<Longrightarrow>
   \<exists>s'. harmonic_score_loop ht bf ofs idxs s = Inr s' \<and> s \<le> s' \<and> (idxs = [] \<longrightarrow> s' = s)"
proof (induction idxs arbitrary: s)
  case Nil
  show ?case by simp
next
  case (Cons i idxs)
  have i: "i < length bf" "i < length ofs" and rest: "\<forall>i \<in> set idxs. i < length bf \<and> i < length ofs"
    using Cons.prems by simp_all
  define ratio where "ratio = (if bf ! i > 0 then ofs ! i / bf ! i else 0)"
  define s1 where "s1 =
    (if (ht = ''all'' \<or> ht = ''octave'') \<and> \<bar>ratio - 2.0\<bar> < 0.1 then s + 1
     else if (ht = ''all'' \<or> ht = ''fifth'') \<and> \<bar>ratio - 1.5\<bar> < 0.1 then s + 0.8
     else if (ht = ''all'' \<or> ht = ''fourth'') \<and> \<bar>ratio - 1.33\<bar> < 0.1 then s + 0.7
     else s)"
  have step: "harmonic_score_loop ht bf ofs (i # idxs) s = harmonic_score_loop ht bf ofs idxs s1"
    using i by (simp add: bind_err_def nth_py_def ratio_def s1_def)
  have "s \<le> s1" by (simp add: s1_def)
  moreover obtain s' where "harmonic_score_loop ht bf ofs idxs s1 = Inr s'" "s1 \<le> s'"
    using Cons.IH [OF rest, of s1] by blast
  ultimately show ?case using step by auto
qed

lemma harmonic_score_positive_nonempty:
  assumes "harmonic_score_loop ht bf ofs [0..<min (length bf) (length ofs)] 0 = Inr s" "s > 0"
  shows "bf \<noteq> [] \<and> ofs \<noteq> []"
proof (rule ccontr)
  assume "\<not> (bf \<noteq> [] \<and> ofs \<noteq> [])"
  then have "[0..<min (length bf) (length ofs)] = []" by auto
  with assms show False by simp
qed


lemma harmonics_loop_step:
  "harmonics_loop d ht bw (entry # rest) acc =
   harmonics_loop d ht bw rest (acc @ harmonic_candidate d ht bw entry)"
proof (cases entry)
  case (Pair other_id other_doc)
  show ?thesis
  proof (cases "other_id = d")
    case True
    with Pair show ?thesis by (simp add: harmonic_candidate_def)
  next
    case False
    show ?thesis
    proof (cases "wave_pattern other_doc")
      case None
      with Pair False show ?thesis by (simp add: harmonic_candidate_def)
    next
      case (Some ow)
      let ?bf = "frequencies bw" and ?of = "frequencies ow"
      obtain s where s: "harmonic_score_loop ht ?bf ?of [0..<min (length ?bf) (length ?of)] 0 = Inr s"
        using harmonic_score_loop_total [of "[0..<min (length ?bf) (length ?of)]" ?bf ?of ht 0]
        by auto
      show ?thesis
      proof (cases "s > 0")
        case False
        with Pair \<open>other_id \<noteq> d\<close> Some s show ?thesis
          by (simp add: harmonic_candidate_def bind_err_def split: list.splits)
      next
        case True
        with s have "?bf \<noteq> [] \<and> ?of \<noteq> []"
          by (rule harmonic_score_positive_nonempty)
        then obtain b0 bs o0 os where "?bf = b0 # bs" "?of = o0 # os"
          by (auto simp: neq_Nil_conv)
        with Pair \<open>other_id \<noteq> d\<close> Some s True show ?thesis
          by (simp add: harmonic_candidate_def bind_err_def nth_py_def)
      qed
    qed
  qed
qed

lemma harmonics_loop_closed:
  "harmonics_loop d ht bw docs acc = Inr (acc @ concat (map (harmonic_candidate d ht bw) docs))"
  by (induction docs arbitrary: acc) (simp_all add: harmonics_loop_step del: harmonics_loop.simps(2))

lemma find_harmonics_closed:
  "find_harmonics docs d ht =
     (case map_of docs d of None \<Rightarrow> Inr []
      | Some base_doc \<Rightarrow>
         (case wave_pattern base_doc of None \<Rightarrow> Inr []
          | Some bw \<Rightarrow> Inr (take 10 (sorted_reverse harmonic_score
                                  (concat (map (harmonic_candidate d ht bw) docs))))))"
  by (simp add: find_harmonics_def harmonics_loop_closed bind_err_def split: option.splits)

lemma harmonic_candidate_nonempty:
  assumes "e \<in> set (harmonic_candidate d ht bw (oid, od))"
  shows "harmonic_id e = oid \<and> harmonic_score e > 0 \<and>
   (\<exists>ow. wave_pattern od = Some ow \<and> frequencies ow \<noteq> []) \<and> frequencies bw \<noteq> []"
proof (cases "wave_pattern od")
  case None
  with assms show ?thesis by (auto simp: harmonic_candidate_def split: if_splits)
next
  case (Some ow)
  with assms show ?thesis
    by (cases "frequencies ow"; cases "frequencies bw")
       (auto simp: harmonic_candidate_def split: if_splits sum.splits)
qed


text \<open>
  Claim C10. \<^verbatim>\<open>find_harmonics\<close> raises for no document store, base id and harmonic
  type: the reads \<^verbatim>\<open>base_freqs[0]\<close> and \<^verbatim>\<open>other_freqs[0]\<close> happen only after a
  positive score, which needs a loop iteration and so two non-empty frequency lists.
  Every returned entry comes from a stored document with a non-empty frequency list:
  a document with an empty one is skipped.
\<close>

theorem find_harmonics_never_fails:
  "\<exists>hs. find_harmonics documents d ht = Inr hs \<and>
     (\<forall>e \<in> set hs. \<exists>od ow. (harmonic_id e, od) \<in> set documents \<and>
         wave_pattern od = Some ow \<and> frequencies ow \<noteq> [])"
proof -
  have cand: "\<exists>od ow. (harmonic_id e, od) \<in> set documents \<and>
         wave_pattern od = Some ow \<and> frequencies ow \<noteq> []"
    if "e \<in> set (concat (map (harmonic_candidate d ht bw) documents))" for e bw
  proof -
    from that obtain oid od where "(oid, od) \<in> set documents"
      "e \<in> set (harmonic_candidate d ht bw (oid, od))"
      by auto
    with harmonic_candidate_nonempty [of e d ht bw oid od] show ?thesis by auto
  qed
  show ?thesis
  proof (cases "map_of documents d")
    case None
    then show ?thesis by (simp add: find_harmonics_closed)
  next
    case (Some base_doc)
    show ?thesis
    proof (cases "wave_pattern base_doc")
      case None
      with Some show ?thesis by (simp add: find_harmonics_closed)
    next
      case bw: (Some bw)
      have "\<forall>e \<in> set (take 10 (sorted_reverse harmonic_score
               (concat (map (harmonic_candidate d ht bw) documents)))).
             \<exists>od ow. (harmonic_id e, od) \<in> set documents \<and>
               wave_pattern od = Some ow \<and> frequencies ow \<noteq> []"
        using cand [of _ bw] by (auto dest!: in_set_takeD simp: set_sorted_reverse)
      with Some bw show ?thesis by (simp add: find_harmonics_closed)
    qed
  qed
qed

theorem find_harmonics_never_fails_witness:
  "find_harmonics
     [(''b'', stored_doc ''B'' ''c'' (Some (tone [20]))),
      (''e'', stored_doc ''E'' ''c'' (Some (tone []))),
      (''o'', stored_doc ''O'' ''c'' (Some (tone [40])))] ''b'' ''all'' =
   Inr [\<lparr>harmonic_id = ''o'', harmonic_title = ''O'', harmonic_category = ''c'',
         harmonic_score = 1, relationship = Label ''octave''\<rparr>] \<and>
   find_harmonics
     [(''b'', stored_doc ''B'' ''c'' (Some (tone [20]))),
      (''e'', stored_doc ''E'' ''c'' (Some (tone []))),
      (''o'', stored_doc ''O'' ''c'' (Some (tone [40])))] ''e'' ''all'' = Inr []"
  using find_harmonics_never_fails
    [of "[(''b'', stored_doc ''B'' ''c'' (Some (tone [20]))),
      (''e'', stored_doc ''E'' ''c'' (Some (tone []))),
      (''o'', stored_doc ''O'' ''c'' (Some (tone [40])))]" "''b''" "''all''"]
  by (simp add: find_harmonics_def stored_doc_def tone_def bind_err_def nth_py_def
      identify_harmonic_type_def sorted_reverse_def)

lemma octave_score:
  "\<exists>s. harmonic_score_loop ''octave'' (20 # bs) (40 # os)
          [0..<min (length (20 # bs)) (length (40 # os))] 0 = Inr s \<and> 1 \<le> s"
proof -
  define n where "n = min (length bs) (length os)"
  have len: "min (length (20 # bs)) (length (40 # os)) = Suc n"
    by (simp add: n_def)
  define rest where "rest = [1..<Suc n]"
  have idx: "[0..<Suc n] = 0 # rest"
    by (simp add: upt_conv_Cons rest_def)
  have "\<forall>i \<in> set rest. i < length (20 # bs) \<and> i < length (40 # os)"
    by (auto simp: rest_def n_def)
  then have "\<exists>s'. harmonic_score_loop ''octave'' (20 # bs) (40 # os) rest 1 = Inr s' \<and> 1 \<le> s' \<and>
      (rest = [] \<longrightarrow> s' = 1)"
    by (rule harmonic_score_loop_total)
  then show ?thesis
    unfolding len idx by (auto simp: bind_err_def nth_py_def)
qed

text \<open>
  Claim C9, amended. For a stored base document whose first frequency is 20 and any
  other stored document whose first frequency is 40, \<^verbatim>\<open>find_harmonics\<close> with
  \<^verbatim>\<open>harmonic_type = "octave"\<close> makes the other document a candidate with
  \<open>harmonic_score \<ge> 1\<close> and the relationship label \<^verbatim>\<open>octave\<close>; the list returned is
  the ten highest-scoring candidates, so the document is in it whenever at most ten
  documents qualify.
\<close>

theorem octave_candidate:
  assumes "map_of documents d = Some base_doc" and "wave_pattern base_doc = Some bw"
    and "frequencies bw = 20 # bs"
    and "(oid, od) \<in> set documents" and "oid \<noteq> d"
    and "wave_pattern od = Some ow" and "frequencies ow = 40 # os"
  shows "\<exists>cands e. harmonics_loop d ''octave'' bw documents [] = Inr cands \<and>
           find_harmonics documents d ''octave'' =
             Inr (take 10 (sorted_reverse harmonic_score cands)) \<and>
           e \<in> set cands \<and> harmonic_id e = oid \<and> 1 \<le> harmonic_score e \<and>
           relationship e = Label ''octave'' \<and>
           (length cands \<le> 10 \<longrightarrow> e \<in> set (take 10 (sorted_reverse harmonic_score cands)))"
proof -
  let ?cands = "concat (map (harmonic_candidate d ''octave'' bw) documents)"
  obtain s where s: "harmonic_score_loop ''octave'' (20 # bs) (40 # os)
          [0..<min (length (20 # bs)) (length (40 # os))] 0 = Inr s" "1 \<le> s"
    using octave_score by blast
  let ?e = "\<lparr>harmonic_id = oid, harmonic_title = title od, harmonic_category = category od,
             harmonic_score = s, relationship = Label ''octave''\<rparr>"
  have "harmonic_candidate d ''octave'' bw (oid, od) = [?e]"
    using assms(3,5,6,7) s
    by (simp add: harmonic_candidate_def identify_harmonic_type_def)
  with assms(4) have mem: "?e \<in> set ?cands"
    by force
  have "length ?cands \<le> 10 \<longrightarrow> ?e \<in> set (take 10 (sorted_reverse harmonic_score ?cands))"
    using mem by (simp add: set_sorted_reverse length_sorted_reverse)
  moreover have "find_harmonics documents d ''octave'' =
             Inr (take 10 (sorted_reverse harmonic_score ?cands))"
    using assms(1,2) by (simp add: find_harmonics_closed)
  ultimately show ?thesis
    using mem s(2) harmonics_loop_closed [of d "''octave''" bw documents "[]"]
    by (intro exI [of _ ?cands] exI [of _ ?e]) simp
qed


theorem octave_candidate_witness:
  "find_harmonics
     [(''b'', stored_doc ''B'' ''c'' (Some (tone [20, 120]))),
      (''o'', stored_doc ''O'' ''c'' (Some (tone [40, 240])))] ''b'' ''octave'' =
   Inr [\<lparr>harmonic_id = ''o'', harmonic_title = ''O'', harmonic_category = ''c'',
         harmonic_score = 2, relationship = Label ''octave''\<rparr>]"
  using octave_candidate
    [where documents = "[(''b'', stored_doc ''B'' ''c'' (Some (tone [20, 120]))),
                         (''o'', stored_doc ''O'' ''c'' (Some (tone [40, 240])))]"
       and d = "''b''" and base_doc = "stored_doc ''B'' ''c'' (Some (tone [20, 120]))"
       and bw = "tone [20, 120]" and bs = "[120]" and oid = "''o''"
       and od = "stored_doc ''O'' ''c'' (Some (tone [40, 240]))"
       and ow = "tone [40, 240]" and os = "[240]"]
  by (simp add: find_harmonics_def stored_doc_def tone_def bind_err_def nth_py_def
      identify_harmonic_type_def sorted_reverse_def upt_rec)

text \<open>
  Against claim C9 as stated: a base document with first frequency 20 and eleven other
  documents with first frequency 40. All score 1; the sort is stable and the list is
  cut to ten entries, so the last document \<open>t\<close> is not returned.
\<close>

theorem octave_document_truncated:
  "find_harmonics
     [(''b'', stored_doc ''B'' ''c'' (Some (tone [20]))),
      (''0'', stored_doc ''D0'' ''c'' (Some (tone [40]))),
      (''1'', stored_doc ''D1'' ''c'' (Some (tone [40]))),
      (''2'', stored_doc ''D2'' ''c'' (Some (tone [40]))),
      (''3'', stored_doc ''D3'' ''c'' (Some (tone [40]))),
      (''4'', stored_doc ''D4'' ''c'' (Some (tone [40]))),
      (''5'', stored_doc ''D5'' ''c'' (Some (tone [40]))),
      (''6'', stored_doc ''D6'' ''c'' (Some (tone [40]))),
      (''7'', stored_doc ''D7'' ''c'' (Some (tone [40]))),
      (''8'', stored_doc ''D8'' ''c'' (Some (tone [40]))),
      (''9'', stored_doc ''D9'' ''c'' (Some (tone [40]))),
      (''t'', stored_doc ''T'' ''c'' (Some (tone [40])))] ''b'' ''octave'' =
   Inr [\<lparr>harmonic_id = ''0'', harmonic_title = ''D0'', harmonic_category = ''c'',
         harmonic_score = 1, relationship = Label ''octave''\<rparr>,
        \<lparr>harmonic_id = ''1'', harmonic_title = ''D1'', harmonic_category = ''c'',
         harmonic_score = 1, relationship = Label ''octave''\<rparr>,
        \<lparr>harmonic_id = ''2'', harmonic_title = ''D2'', harmonic_category = ''c'',
         harmonic_score = 1, relationship = Label ''octave''\<rparr>,
        \<lparr>harmonic_id = ''3'', harmonic_title = ''D3'', harmonic_category = ''c'',
         harmonic_score = 1, relationship = Label ''octave''\<rparr>,
        \<lparr>harmonic_id = ''4'', harmonic_title = ''D4'', harmonic_category = ''c'',
         harmonic_score = 1, relationship = Label ''octave''\<rparr>,
        \<lparr>harmonic_id = ''5'', harmonic_title = ''D5'', harmonic_category = ''c'',
         harmonic_score = 1, relationship = Label ''octave''\<rparr>,
        \<lparr>harmonic_id = ''6'', harmonic_title = ''D6'', harmonic_category = ''c'',
         harmonic_score = 1, relationship = Label ''octave''\<rparr>,
        \<lparr>harmonic_id = ''7'', harmonic_title = ''D7'', harmonic_category = ''c'',
         harmonic_score = 1, relationship = Label ''octave''\<rparr>,
        \<lparr>harmonic_id = ''8'', harmonic_title = ''D8'', harmonic_category = ''c'',
         harmonic_score = 1, relationship = Label ''octave''\<rparr>,
        \<lparr>harmonic_id = ''9'', harmonic_title = ''D9'', harmonic_category = ''c'',
         harmonic_score = 1, relationship = Label ''octave''\<rparr>]"
  by (simp add: find_harmonics_def stored_doc_def tone_def bind_err_def nth_py_def
      identify_harmonic_type_def sorted_reverse_def)

section \<open>Properties of the search pipeline\<close>

lemma sorted_reverse_idem:
  "sorted_wrt (\<lambda>x y. key x \<ge> key y) xs \<Longrightarrow> sorted_reverse key xs = xs"
  unfolding sorted_reverse_def
  by (rule sort_key_id_if_sorted) (simp add: sorted_map)

lemma score_documents_ids:
  "score_documents q ctx cf docs acc = Inr rs \<Longrightarrow>
   distinct (map result_id acc @ map fst docs) \<Longrightarrow> distinct (map result_id rs)"
proof (induction docs arbitrary: acc)
  case Nil
  then show ?case by simp
next
  case (Cons entry docs)
  obtain did doc where entry: "entry = (did, doc)" by (cases entry)
  have skip: "distinct (map result_id acc @ map fst docs)"
    using Cons.prems(2) by (simp add: entry)
  have keep: "distinct (map result_id (acc @ [r]) @ map fst docs)" if "result_id r = did" for r
    using Cons.prems(2) that by (auto simp: entry)
  show ?case
  proof (cases "case cf of None \<Rightarrow> False | Some c \<Rightarrow> c \<noteq> [] \<and> category doc \<noteq> c")
    case True
    with Cons.prems(1) have "score_documents q ctx cf docs acc = Inr rs"
      by (simp add: entry)
    then show ?thesis using skip by (rule Cons.IH)
  next
    case False
    show ?thesis
    proof (cases "wave_pattern doc")
      case None
      with False Cons.prems(1) have "score_documents q ctx cf docs acc = Inr rs"
        by (simp add: entry)
      then show ?thesis using skip by (rule Cons.IH)
    next
      case (Some w)
      with False Cons.prems(1) obtain r where
        "score_documents q ctx cf docs (acc @ [r]) = Inr rs" "result_id r = did"
        by (auto simp: entry Let_def split: sum.splits)
      then show ?thesis using keep Cons.IH by blast
    qed
  qed
qed

lemma distinct_ids_sorted_reverse:
  "distinct (map result_id rs) \<Longrightarrow> distinct (map result_id (sorted_reverse key rs))"
  by (simp add: sorted_reverse_def distinct_map)

lemma boost_unfold:
  "boost m r = (case m (result_id r) of
                  Some s \<Rightarrow> r\<lparr>resonance := resonance r * (1 + s * 0.5)\<rparr> | None \<Rightarrow> r)"
  by (simp add: boost_def split: option.splits)

lemma graph_rerank_spec:
  assumes "sorted_wrt (\<lambda>x y. resonance x \<ge> resonance y) rs"
    and "distinct (map result_id rs)"
  shows "graph_rerank ctx g rs = spec_rerank ctx g rs"
proof (cases "rs \<noteq> [] \<and> harmonic_preference ctx \<noteq> ''balanced''")
  case False
  then show ?thesis by (auto simp: graph_rerank_def spec_rerank_def)
next
  case True
  then obtain top_result others where rs: "rs = top_result # others"
    by (auto simp: neq_Nil_conv)
  have others: "\<forall>r \<in> set others. result_id r \<noteq> result_id top_result"
    using assms(2) rs by (auto simp: image_iff)
  have rest: "map (spec_boost (result_id top_result) m) others = map (boost m) others" for m
    using others by (simp add: spec_boost_def boost_unfold)
  have first: "spec_boost (result_id top_result) m top_result = top_result" for m
    by (simp add: spec_boost_def)
  have spec: "spec_rerank ctx g rs =
      sorted_reverse resonance
        (top_result # map (boost (map_of (rev (spec_neighbors g (result_id top_result))))) others)"
    using True by (simp add: spec_rerank_def Let_def rs rest first)
  show ?thesis
  proof (cases "g (result_id top_result)")
    case None
    have "map (boost Map.empty) others = others"
      by (simp add: boost_def map_idI)
    then have "sorted_reverse resonance (top_result # map (boost Map.empty) others) = rs"
      using assms(1) rs by (simp add: sorted_reverse_idem)
    moreover have "graph_rerank ctx g rs = rs"
      using True None by (simp add: graph_rerank_def rs)
    ultimately show ?thesis
      using None by (simp add: spec spec_neighbors_def)
  next
    case (Some ns)
    with True have "graph_rerank ctx g rs =
        sorted_reverse resonance (top_result # map (boost (map_of (rev ns))) others)"
      by (simp add: graph_rerank_def rs)
    with Some show ?thesis
      by (simp add: spec spec_neighbors_def)
  qed
qed

text \<open>
  Claim C8. For a document store with distinct ids (a dict), \<^verbatim>\<open>search\<close> returns what
  the specified pipeline returns: the re-ranking pass runs exactly when the sorted
  result list is non-empty and the harmonic preference is not \<^verbatim>\<open>balanced\<close>; it
  multiplies by \<open>1 + neighbor_score * 0.5\<close> every result other than the top one whose
  id is among the top result's graph neighbours, leaves the others unchanged, sorts
  again descending, and the truncation to \<open>top_k\<close> comes last.
\<close>

theorem search_reranks_as_specified:
  assumes "distinct (map fst documents)"
  shows "search documents graph query_embedding context_opt category_filter top_k =
         spec_search documents graph query_embedding context_opt category_filter top_k"
proof -
  define ctx where "ctx = (case context_opt of None \<Rightarrow> default_context | Some c \<Rightarrow> c)"
  define scored where
    "scored = score_documents (engine_vector_to_wave query_embedding) ctx category_filter documents []"
  have "graph_rerank ctx graph (sorted_reverse resonance rs) =
        spec_rerank ctx graph (sorted_reverse resonance rs)" if "scored = Inr rs" for rs
  proof (rule graph_rerank_spec)
    show "sorted_wrt (\<lambda>x y. resonance x \<ge> resonance y) (sorted_reverse resonance rs)"
      by (rule sorted_reverse_descending)
    have "distinct (map result_id rs)"
      using that assms score_documents_ids [of _ _ _ documents "[]" rs]
      by (simp add: scored_def)
    then show "distinct (map result_id (sorted_reverse resonance rs))"
      by (rule distinct_ids_sorted_reverse)
  qed
  then show ?thesis
    by (cases scored)
       (simp_all add: search_def spec_search_def Let_def bind_err_def
          ctx_def [symmetric] scored_def [symmetric])
qed

theorem search_reranks_as_specified_witness:
  "search
     [(''x'', stored_doc ''X'' ''c'' (Some (tone [20]))),
      (''y'', stored_doc ''Y'' ''c'' (Some ((tone [20])\<lparr>amplitudes := [3 / 4]\<rparr>))),
      (''z'', stored_doc ''Z'' ''c'' (Some ((tone [20])\<lparr>amplitudes := [1 / 2]\<rparr>)))]
     [''x'' \<mapsto> [(''z'', 2)]] [1]
     (Some (default_context\<lparr>harmonic_preference := ''octaves''\<rparr>)) None 2 =
   Inr [\<lparr>result_id = ''x'', result_title = ''X'', result_category = ''c'', resonance = 1,
         result_emotional_valence = 0, preview = [], result_path = ''X''\<rparr>,
        \<lparr>result_id = ''z'', result_title = ''Z'', result_category = ''c'', resonance = 1,
         result_emotional_valence = 0, preview = [], result_path = ''Z''\<rparr>] \<and>
   spec_search
     [(''x'', stored_doc ''X'' ''c'' (Some (tone [20]))),
      (''y'', stored_doc ''Y'' ''c'' (Some ((tone [20])\<lparr>amplitudes := [3 / 4]\<rparr>))),
      (''z'', stored_doc ''Z'' ''c'' (Some ((tone [20])\<lparr>amplitudes := [1 / 2]\<rparr>)))]
     [''x'' \<mapsto> [(''z'', 2)]] [1]
     (Some (default_context\<lparr>harmonic_preference := ''octaves''\<rparr>)) None 2 =
   Inr [\<lparr>result_id = ''x'', result_title = ''X'', result_category = ''c'', resonance = 1,
         result_emotional_valence = 0, preview = [], result_path = ''X''\<rparr>,
        \<lparr>result_id = ''z'', result_title = ''Z'', result_category = ''c'', resonance = 1,
         result_emotional_valence = 0, preview = [], result_path = ''Z''\<rparr>]"
proof -
  have "search
     [(''x'', stored_doc ''X'' ''c'' (Some (tone [20]))),
      (''y'', stored_doc ''Y'' ''c'' (Some ((tone [20])\<lparr>amplitudes := [3 / 4]\<rparr>))),
      (''z'', stored_doc ''Z'' ''c'' (Some ((tone [20])\<lparr>amplitudes := [1 / 2]\<rparr>)))]
     [''x'' \<mapsto> [(''z'', 2)]] [1]
     (Some (default_context\<lparr>harmonic_preference := ''octaves''\<rparr>)) None 2 =
   Inr [\<lparr>result_id = ''x'', result_title = ''X'', result_category = ''c'', resonance = 1,
         result_emotional_valence = 0, preview = [], result_path = ''X''\<rparr>,
        \<lparr>result_id = ''z'', result_title = ''Z'', result_category = ''c'', resonance = 1,
         result_emotional_valence = 0, preview = [], result_path = ''Z''\<rparr>]"
    by (simp add: search_def engine_vector_to_wave_def engine_wave_step_def enumerate_eq_zip
        stored_doc_def tone_def default_context_def engine_calculate_resonance_def
        engine_component_def preference_bonus_def emotional_modulation_def bind_err_def
        nth_py_def sorted_reverse_def graph_rerank_def boost_def py_slice_to_def)
  then show ?thesis
    using search_reranks_as_specified
      [of "[(''x'', stored_doc ''X'' ''c'' (Some (tone [20]))),
      (''y'', stored_doc ''Y'' ''c'' (Some ((tone [20])\<lparr>amplitudes := [3 / 4]\<rparr>))),
      (''z'', stored_doc ''Z'' ''c'' (Some ((tone [20])\<lparr>amplitudes := [1 / 2]\<rparr>)))]"
        "[''x'' \<mapsto> [(''z'', 2)]]" "[1]"
        "Some (default_context\<lparr>harmonic_preference := ''octaves''\<rparr>)" None 2]
    by simp
qed

end
